theory Spec2Isabelle
  imports Main "HOL-Library.AList"
begin

section \<open>Position generator (example/src/chess960-utils.ts)\<close>

text \<open>
  The generator works on JavaScript numbers and arrays of one-letter strings. The position
  number is an integer (\<open>int\<close>); for a non-negative integer \<open>n % k\<close> is \<open>mod\<close> and
  \<open>Math.floor(n / k)\<close> is \<open>div\<close>. The back rank is a list of strings, the empty string
  marking a file that holds no piece yet.
\<close>

datatype error =
    OutOfRange        \<comment> \<open>\<open>throw new Error('Position must be between 1 and 960')\<close>\<close>
  | TypeError         \<comment> \<open>reading an element of \<open>undefined\<close>\<close>

definition ROOK :: string where "ROOK = ''R''"
definition KNIGHT :: string where "KNIGHT = ''N''"
definition BISHOP :: string where "BISHOP = ''B''"
definition QUEEN :: string where "QUEEN = ''Q''"
definition KING :: string where "KING = ''K''"

text \<open>
  \<open>pieces.map((p, i) => p === '' ? i : -1).filter(i => i >= 0)\<close>: the indices of the
  files that are still empty, in file order.
\<close>

definition emptyFiles :: "string list \<Rightarrow> int list" where
  "emptyFiles pieces =
     filter (\<lambda>i. i \<ge> 0)
       (map (\<lambda>(i, p). if p = [] then int i else - 1) (List.enumerate 0 pieces))"

text \<open>
  \<open>pieces[squares[k]] = v\<close>. Reading \<open>squares[k]\<close> outside the array gives
  \<open>undefined\<close>, and the assignment \<open>pieces[undefined] = v\<close> then adds a property named
  "undefined" and leaves the eight slots as they are. A slot index beyond the array does
  not occur with the index lists built here (they hold indices of \<open>pieces\<close> only).
\<close>

definition place :: "string list \<Rightarrow> int list \<Rightarrow> int \<Rightarrow> string \<Rightarrow> string list" where
  "place pieces squares k v =
     (if 0 \<le> k \<and> nat k < length squares then pieces[nat (squares ! nat k) := v] else pieces)"

definition lightSquares :: "int list" where "lightSquares = [1, 3, 5, 7]"
definition darkSquares :: "int list" where "darkSquares = [0, 2, 4, 6]"

definition knightPlacements :: "(int \<times> int) list" where
  "knightPlacements =
     [(0, 1), (0, 2), (0, 3), (0, 4),
      (1, 2), (1, 3), (1, 4),
      (2, 3), (2, 4),
      (3, 4)]"

definition positionToBackRank :: "int \<Rightarrow> error + string list" where
  "positionToBackRank n0 =
     (if n0 < 1 \<or> n0 > 960 then Inl OutOfRange
      else
        let n = n0 - 1;
            pieces = replicate 8 [];
            lightBishopIdx = n mod 4;
            pieces = place pieces lightSquares lightBishopIdx BISHOP;
            n = n div 4;
            darkBishopIdx = n mod 4;
            pieces = place pieces darkSquares darkBishopIdx BISHOP;
            n = n div 4;
            emptySquares = emptyFiles pieces;
            queenIdx = n mod 6;
            pieces = place pieces emptySquares queenIdx QUEEN;
            n = n div 6;
            remainingSquares = emptyFiles pieces
        in if 0 \<le> n \<and> nat n < length knightPlacements then
             let knightPlacement = knightPlacements ! nat n;
                 pieces = place pieces remainingSquares (fst knightPlacement) KNIGHT;
                 pieces = place pieces remainingSquares (snd knightPlacement) KNIGHT;
                 lastSquares = emptyFiles pieces;
                 pieces = place pieces lastSquares 0 ROOK;
                 pieces = place pieces lastSquares 1 KING;
                 pieces = place pieces lastSquares 2 ROOK
             in Inr pieces
           else Inl TypeError)"

subsection \<open>An executable check of a back rank\<close>

text \<open>
  Not part of the source: \<open>filesOf x ps\<close> lists the files (0-indexed) holding the
  letter \<open>x\<close>, and \<open>validBackRank\<close> decides the Chess960 constraints, so that they can
  be evaluated for each of the 960 position numbers.
\<close>

definition filesOf :: "string \<Rightarrow> string list \<Rightarrow> nat list" where
  "filesOf x ps = filter (\<lambda>i. ps ! i = x) [0..<length ps]"

definition validBackRank :: "string list \<Rightarrow> bool" where
  "validBackRank ps =
     (length ps = 8 \<and>
      count_list ps KING = 1 \<and> count_list ps QUEEN = 1 \<and> count_list ps ROOK = 2 \<and>
      count_list ps KNIGHT = 2 \<and> count_list ps BISHOP = 2 \<and>
      (case (filesOf KING ps, filesOf ROOK ps, filesOf BISHOP ps) of
         ([k], [r1, r2], [b1, b2]) \<Rightarrow> r1 < k \<and> k < r2 \<and> even b1 \<noteq> even b2
       | _ \<Rightarrow> False))"

definition checkRange :: "int \<Rightarrow> int \<Rightarrow> bool" where
  "checkRange lo hi =
     list_all (\<lambda>n. case positionToBackRank n of Inr ps \<Rightarrow> validBackRank ps | Inl _ \<Rightarrow> False) [lo..hi]"

section \<open>Pieces and FEN text\<close>

text \<open>
  \<open>PieceType\<close> is the union \<open>'p' | 'r' | 'n' | 'b' | 'q' | 'k'\<close> and \<open>Color\<close> the union
  \<open>'white' | 'black'\<close> of types.ts; the rules engine writes colours as \<open>'w'\<close> and
  \<open>'b'\<close>.
\<close>

datatype PieceType = Pawn | Rook | Knight | Bishop | Queen | King

datatype Color = White | Black

datatype EngineColor = EngineW | EngineB

record Piece =
  ptype :: PieceType
  color :: Color

record EnginePiece =
  etype :: PieceType
  ecolor :: EngineColor

type_synonym Square = string

type_synonym Board = "Piece option list list"

type_synonym EngineBoard = "EnginePiece option list list"

definition typeStr :: "PieceType \<Rightarrow> string" where
  "typeStr t = (case t of Pawn \<Rightarrow> ''p'' | Rook \<Rightarrow> ''r'' | Knight \<Rightarrow> ''n''
                | Bishop \<Rightarrow> ''b'' | Queen \<Rightarrow> ''q'' | King \<Rightarrow> ''k'')"

definition colorStr :: "Color \<Rightarrow> string" where
  "colorStr c = (case c of White \<Rightarrow> ''white'' | Black \<Rightarrow> ''black'')"

subsection \<open>backRankToFEN (example/src/chess960-utils.ts)\<close>

text \<open>
  \<open>toLowerCase\<close> and \<open>toUpperCase\<close> on the ASCII letters; every other character is
  left as it is (characters are bytes here, which covers the piece letters).
\<close>

definition toLowerCase :: "string \<Rightarrow> string" where
  "toLowerCase s =
     map (\<lambda>c. let k = (of_char c :: nat) in if 65 \<le> k \<and> k \<le> 90 then char_of (k + 32) else c) s"

definition toUpperCase :: "string \<Rightarrow> string" where
  "toUpperCase s =
     map (\<lambda>c. let k = (of_char c :: nat) in if 97 \<le> k \<and> k \<le> 122 then char_of (k - 32) else c) s"

text \<open>
  The variable names are the source's: \<open>whiteBackRank\<close> is the lower-case copy and is
  written first (rank 8), \<open>blackBackRank\<close> the upper-case copy, written last (rank 1).
\<close>

definition backRankToFEN :: "string list \<Rightarrow> string" where
  "backRankToFEN pieces =
     (let backRank = concat pieces;
          whiteBackRank = toLowerCase backRank;
          blackBackRank = toUpperCase backRank
      in whiteBackRank @ ''/pppppppp/8/8/8/8/PPPPPPPP/'' @ blackBackRank @ '' w KQkq - 0 1'')"

subsection \<open>Reading a FEN\<close>

text \<open>
  Modelled from the spec: the rules engine that parses FEN strings (chess.js) is a
  dependency and not part of the repository. The reader below follows Forsyth-Edwards
  Notation, which the spec's glossary names, in the orientation that the comments of
  \<open>parseFen\<close> and \<open>backRankToFEN\<close> state (the first rank of the text is rank 8, the
  last is rank 1): six fields separated by spaces; the first holds eight ranks separated
  by \<open>/\<close>, each describing eight squares from file a to file h, a digit standing for
  that many empty squares, an upper-case letter for a white piece and a lower-case letter
  for a black one; the second is the side to move.
\<close>

fun splitOn :: "char \<Rightarrow> string \<Rightarrow> string list" where
  "splitOn c [] = [[]]"
| "splitOn c (x # xs) =
     (if x = c then [] # splitOn c xs
      else (case splitOn c xs of [] \<Rightarrow> [[x]] | w # ws \<Rightarrow> (x # w) # ws))"

definition pieceOfChar :: "char \<Rightarrow> EnginePiece option" where
  "pieceOfChar c =
     map_of
       [(CHR ''p'', \<lparr>etype = Pawn, ecolor = EngineB\<rparr>), (CHR ''r'', \<lparr>etype = Rook, ecolor = EngineB\<rparr>),
        (CHR ''n'', \<lparr>etype = Knight, ecolor = EngineB\<rparr>), (CHR ''b'', \<lparr>etype = Bishop, ecolor = EngineB\<rparr>),
        (CHR ''q'', \<lparr>etype = Queen, ecolor = EngineB\<rparr>), (CHR ''k'', \<lparr>etype = King, ecolor = EngineB\<rparr>),
        (CHR ''P'', \<lparr>etype = Pawn, ecolor = EngineW\<rparr>), (CHR ''R'', \<lparr>etype = Rook, ecolor = EngineW\<rparr>),
        (CHR ''N'', \<lparr>etype = Knight, ecolor = EngineW\<rparr>), (CHR ''B'', \<lparr>etype = Bishop, ecolor = EngineW\<rparr>),
        (CHR ''Q'', \<lparr>etype = Queen, ecolor = EngineW\<rparr>), (CHR ''K'', \<lparr>etype = King, ecolor = EngineW\<rparr>)] c"

definition emptyRun :: "char \<Rightarrow> nat option" where
  "emptyRun c = (let k = (of_char c :: nat) in if 49 \<le> k \<and> k \<le> 56 then Some (k - 48) else None)"

fun fenSquares :: "string \<Rightarrow> EnginePiece option list option" where
  "fenSquares [] = Some []"
| "fenSquares (c # cs) =
     (case fenSquares cs of
        None \<Rightarrow> None
      | Some rest \<Rightarrow>
          (case emptyRun c of
             Some k \<Rightarrow> Some (replicate k None @ rest)
           | None \<Rightarrow> (case pieceOfChar c of None \<Rightarrow> None | Some p \<Rightarrow> Some (Some p # rest))))"

definition fenRank :: "string \<Rightarrow> EnginePiece option list option" where
  "fenRank s = (case fenSquares s of
                  None \<Rightarrow> None
                | Some sq \<Rightarrow> if length sq = 8 then Some sq else None)"

fun allSome :: "'a option list \<Rightarrow> 'a list option" where
  "allSome [] = Some []"
| "allSome (x # xs) =
     (case x of None \<Rightarrow> None
      | Some v \<Rightarrow> (case allSome xs of None \<Rightarrow> None | Some vs \<Rightarrow> Some (v # vs)))"

definition fenPlacement :: "string \<Rightarrow> EngineBoard option" where
  "fenPlacement s =
     (let ranks = splitOn (CHR ''/'') s
      in if length ranks = 8 then allSome (map fenRank ranks) else None)"

record FenPosition =
  placement :: EngineBoard
  sideToMove :: string
  castling :: string
  enPassant :: string
  halfmoves :: string
  fullmoves :: string

definition readFEN :: "string \<Rightarrow> FenPosition option" where
  "readFEN fen =
     (case splitOn (CHR '' '') fen of
        [pl, side, cas, ep, half, full] \<Rightarrow>
          (case fenPlacement pl of
             None \<Rightarrow> None
           | Some b \<Rightarrow>
               if side = ''w'' \<or> side = ''b'' then
                 Some \<lparr>placement = b, sideToMove = side, castling = cas, enPassant = ep,
                       halfmoves = half, fullmoves = full\<rparr>
               else None)
      | _ \<Rightarrow> None)"

text \<open>
  What a parsed rank shows, for comparison with the generator's letters: the upper-case
  letter of each piece, the colour of each piece, and whether a square holds a pawn.
\<close>

definition typeLetter :: "PieceType \<Rightarrow> string" where
  "typeLetter t = toUpperCase (typeStr t)"

definition rankLetters :: "EnginePiece option list \<Rightarrow> string list" where
  "rankLetters sqs = map (\<lambda>sq. case sq of None \<Rightarrow> [] | Some p \<Rightarrow> typeLetter (etype p)) sqs"

definition rankColors :: "EnginePiece option list \<Rightarrow> EngineColor option list" where
  "rankColors sqs = map (map_option ecolor) sqs"

definition isPawn :: "EnginePiece option \<Rightarrow> bool" where
  "isPawn sq = (case sq of None \<Rightarrow> False | Some p \<Rightarrow> etype p = Pawn)"

definition pieceLetters :: "string set" where
  "pieceLetters = {ROOK, KNIGHT, BISHOP, QUEEN, KING}"

section \<open>The board component (Chess960Board)\<close>

subsection \<open>Coordinates and board access\<close>

text \<open>
  \<open>rankFileToSquare\<close> indexes the strings \<open>'abcdefgh'\<close> and \<open>'87654321'\<close>; an
  index outside a string gives \<open>undefined\<close>, which the template literal prints as the
  word "undefined".
\<close>

definition rankFileToSquare :: "nat \<Rightarrow> nat \<Rightarrow> Square" where
  "rankFileToSquare rank file =
     (if file < 8 then [''abcdefgh'' ! file] else ''undefined'') @
     (if rank < 8 then [''87654321'' ! rank] else ''undefined'')"

text \<open>\<open>board[rank]?.[file]\<close>: a missing row or column gives \<open>undefined\<close>, which is falsy like \<open>null\<close>.\<close>

definition pieceAt :: "Board \<Rightarrow> nat \<Rightarrow> nat \<Rightarrow> Piece option" where
  "pieceAt b rank file =
     (if rank < length b then (if file < length (b ! rank) then b ! rank ! file else None) else None)"

text \<open>The order of the two nested loops \<open>for rank 0..7, for file 0..7\<close>.\<close>

definition scanOrder :: "(nat \<times> nat) list" where
  "scanOrder = List.product [0..<8] [0..<8]"

text \<open>A square that the scan reaches before another one.\<close>

definition scansBefore :: "nat \<times> nat \<Rightarrow> nat \<times> nat \<Rightarrow> bool" where
  "scansBefore a b = (fst a < fst b \<or> (fst a = fst b \<and> snd a < snd b))"

subsection \<open>detectAndAnimateMoves\<close>

record Animation =
  fromSquare :: Square
  toSquare :: Square
  animPiece :: Piece

record Capture =
  capSquare :: Square
  capPiece :: Piece

text \<open>
  The two JavaScript \<open>Map\<close>s are association lists in insertion order; \<open>Map.set\<close> is
  \<open>AList.update\<close> (an existing key keeps its place and takes the new value).
\<close>

record Diff =
  animating :: "(string \<times> Animation) list"
  captured :: "(Square \<times> Capture) list"
  piecesMovedFrom :: "Square list"

text \<open>
  The inner pair of loops: the first square of the new board, in scan order, that holds
  a piece of the colour and type of \<open>oldPiece\<close> and is not \<open>square\<close> itself.
\<close>

definition findMoved :: "Board \<Rightarrow> Piece \<Rightarrow> Square \<Rightarrow> Square option" where
  "findMoved newBoard oldPiece square =
     (case find (\<lambda>(newRank, newFile).
                   case pieceAt newBoard newRank newFile of
                     None \<Rightarrow> False
                   | Some testPiece \<Rightarrow>
                       color testPiece = color oldPiece \<and> ptype testPiece = ptype oldPiece \<and>
                       rankFileToSquare newRank newFile \<noteq> square) scanOrder of
        None \<Rightarrow> None
      | Some (newRank, newFile) \<Rightarrow> Some (rankFileToSquare newRank newFile))"

definition animKey :: "Square \<Rightarrow> Piece \<Rightarrow> string" where
  "animKey newSquare oldPiece =
     newSquare @ ''-'' @ colorStr (color oldPiece) @ ''-'' @ typeStr (ptype oldPiece)"

definition diffSquare :: "Board \<Rightarrow> Board \<Rightarrow> Diff \<Rightarrow> nat \<times> nat \<Rightarrow> Diff" where
  "diffSquare oldBoard newBoard d rf =
     (case rf of (rank, file) \<Rightarrow>
        let square = rankFileToSquare rank file in
        (case pieceAt oldBoard rank file of
           None \<Rightarrow> d
         | Some oldPiece \<Rightarrow>
             if (case pieceAt newBoard rank file of
                   None \<Rightarrow> True
                 | Some newPiece \<Rightarrow>
                     color newPiece \<noteq> color oldPiece \<or> ptype newPiece \<noteq> ptype oldPiece)
             then (case findMoved newBoard oldPiece square of
                     Some newSquare \<Rightarrow>
                       d\<lparr>animating :=
                            AList.update (animKey newSquare oldPiece)
                              \<lparr>fromSquare = square, toSquare = newSquare, animPiece = oldPiece\<rparr>
                              (animating d),
                          piecesMovedFrom := piecesMovedFrom d @ [square]\<rparr>
                   | None \<Rightarrow>
                       d\<lparr>captured :=
                            AList.update square \<lparr>capSquare = square, capPiece = oldPiece\<rparr>
                              (captured d)\<rparr>)
             else d))"

text \<open>
  The result is what \<open>setAnimatingPieces\<close> and \<open>setCapturedPieces\<close> receive. The timer
  that empties both maps after \<open>animationDuration\<close> milliseconds is not modelled.
\<close>

definition detectAndAnimateMoves :: "Board \<Rightarrow> Board \<Rightarrow> Diff" where
  "detectAndAnimateMoves oldBoard newBoard =
     foldl (diffSquare oldBoard newBoard)
       \<lparr>animating = [], captured = [], piecesMovedFrom = []\<rparr> scanOrder"

subsection \<open>The rules engine\<close>

text \<open>
  The component delegates every question about chess to the rules engine (chess.js), which
  is a dependency. It is a parameter of the model: a record of the operations the
  component calls, over the engine's own type of positions \<open>'p\<close>. An operation that may
  throw returns \<open>None\<close> for the exception. The constructor \<open>new Chess(fen)\<close> and
  \<open>chess.load(fen)\<close> are the same operation \<open>chessLoad\<close> (the constructor loads its
  argument); the component wraps both \<open>chess.load\<close> and the constructor call inside
  \<open>parseFen\<close> in \<open>try\<close> blocks.
\<close>

record Move =
  moveFrom :: Square
  moveTo :: Square
  flags :: string
  san :: string

record 'p Engine =
  chessLoad :: "string \<Rightarrow> 'p option"
  chessReset :: "'p"
  chessFen :: "'p \<Rightarrow> string"
  chessBoard :: "'p \<Rightarrow> EngineBoard"
  chessTurn :: "'p \<Rightarrow> EngineColor"
  chessGet :: "'p \<Rightarrow> Square \<Rightarrow> EnginePiece option"
  chessMoves :: "'p \<Rightarrow> Square \<Rightarrow> Move list option"
  chessAllMoves :: "'p \<Rightarrow> Move list option"
  chessMove :: "'p \<Rightarrow> Square \<Rightarrow> Square \<Rightarrow> 'p option option"
  chessInCheck :: "'p \<Rightarrow> bool"

text \<open>
  \<open>chessMove\<close> is \<open>testChess.move({from, to})\<close> on a copy of the position: \<open>None\<close> when
  it throws, \<open>Some None\<close> when it returns \<open>null\<close>, \<open>Some (Some p)\<close> with the position
  after the move.
\<close>

subsection \<open>Properties and state of the component\<close>

datatype InputMode = Drag | Click | Both

record Arrow =
  startSquare :: Square
  endSquare :: Square
  arrowColor :: "string option"

text \<open>
  A callback property is modelled by whether it is supplied; its calls are recorded in
  the state. \<open>externalSelectedSquare\<close> is \<open>None\<close> for \<open>undefined\<close>, \<open>Some None\<close> for
  \<open>null\<close>.
\<close>

record Props =
  fen :: "string option"
  onMove :: bool
  readOnly :: bool
  externalSelectedSquare :: "Square option option"
  legalMoves :: "Square list"
  currentPlayerColor :: "Color option"
  arrows :: "Arrow list"
  onArrowsChange :: bool
  enablePremove :: bool
  onPromotionSelect :: bool
  animationDuration :: int
  showDestinations :: bool
  snapToValidMoves :: bool
  rookCastle :: bool
  enableKeyboard :: bool
  onKeyboardInput :: bool
  soundsEnabled :: bool
  moveInputMode :: InputMode
  eraseArrowsOnClick :: bool

text \<open>
  The state holds the \<open>useState\<close> cells, the position of the mutable \<open>chess\<close> object, the
  \<open>useMemo\<close> cells that the handlers read together with the dependencies they were
  computed for, and the calls made so far to the host's callbacks, to the console and to
  the sound player.
\<close>

record 'p State =
  chess :: 'p
  boardState :: Board
  previousBoardState :: Board
  animatingPieces :: "(string \<times> Animation) list"
  capturedPieces :: "(Square \<times> Capture) list"
  internalSelectedSquare :: "Square option"
  draggedPiece :: "(Square \<times> Piece) option"
  dragOverSquare :: "Square option"
  rightClickedSquares :: "Square list"
  arrowStart :: "Square option"
  isDrawingArrow :: bool
  premoves :: "(Square \<times> Square) list"
  showPromotionDialog :: bool
  pendingPromotion :: "(Square \<times> Square) option"
  keyboardInput :: string
  isPlayerTurn :: bool
  isPlayerTurnDeps :: "Color option"
  calculatedLegalMoves :: "Square list"
  calculatedLegalMovesDeps :: "Square option \<times> bool \<times> bool"
  arrowValidMoves :: "Square list"
  arrowValidMovesDeps :: "Square option \<times> bool \<times> bool"
  onMoveCalls :: "(Square \<times> Square \<times> PieceType option) list"
  onArrowsChangeCalls :: "Arrow list list"
  onKeyboardInputCalls :: "string list"
  soundsPlayed :: "string list"
  consoleErrors :: "string list"

definition selectedSquare :: "Props \<Rightarrow> 'p State \<Rightarrow> Square option" where
  "selectedSquare props s =
     (case externalSelectedSquare props of None \<Rightarrow> internalSelectedSquare s | Some ext \<Rightarrow> ext)"

text \<open>A string is truthy when it is not empty.\<close>

definition truthy :: "string option \<Rightarrow> bool" where
  "truthy v = (case v of None \<Rightarrow> False | Some x \<Rightarrow> x \<noteq> [])"

definition isDragEnabled :: "Props \<Rightarrow> bool" where
  "isDragEnabled props = (moveInputMode props = Drag \<or> moveInputMode props = Both)"

definition isClickEnabled :: "Props \<Rightarrow> bool" where
  "isClickEnabled props = (moveInputMode props = Click \<or> moveInputMode props = Both)"

definition playSound :: "Props \<Rightarrow> string \<Rightarrow> 'p State \<Rightarrow> 'p State" where
  "playSound props soundType s =
     (if soundsEnabled props then s\<lparr>soundsPlayed := soundsPlayed s @ [soundType]\<rparr> else s)"

definition setInternalSelectedSquare :: "Props \<Rightarrow> Square option \<Rightarrow> 'p State \<Rightarrow> 'p State" where
  "setInternalSelectedSquare props v s =
     (if externalSelectedSquare props = None then s\<lparr>internalSelectedSquare := v\<rparr> else s)"

subsection \<open>Memoised values\<close>

definition computeLegalMoves :: "'p Engine \<Rightarrow> Props \<Rightarrow> 'p State \<Rightarrow> Square list" where
  "computeLegalMoves eng props s =
     (if \<not> truthy (selectedSquare props s) \<or> readOnly props \<or> \<not> showDestinations props then []
      else (case chessMoves eng (chess s) (the (selectedSquare props s)) of
              None \<Rightarrow> []
            | Some ms \<Rightarrow> map moveTo ms))"

definition computeIsPlayerTurn :: "'p Engine \<Rightarrow> Props \<Rightarrow> 'p State \<Rightarrow> bool" where
  "computeIsPlayerTurn eng props s =
     (case currentPlayerColor props of
        None \<Rightarrow> True
      | Some c \<Rightarrow> chessTurn eng (chess s) = (if c = White then EngineW else EngineB))"

definition computeArrowValidMoves :: "'p Engine \<Rightarrow> Props \<Rightarrow> 'p State \<Rightarrow> Square list" where
  "computeArrowValidMoves eng props s =
     (if \<not> truthy (arrowStart s) \<or> \<not> snapToValidMoves props \<or> readOnly props then []
      else (case chessMoves eng (chess s) (the (arrowStart s)) of
              None \<Rightarrow> []
            | Some ms \<Rightarrow> map moveTo ms))"

text \<open>
  A render recomputes a \<open>useMemo\<close> cell when one of its dependencies has changed. The
  \<open>chess\<close> object is the same object in every render, so a change of its position alone
  recomputes no cell.
\<close>

definition refreshIsPlayerTurn :: "'p Engine \<Rightarrow> Props \<Rightarrow> 'p State \<Rightarrow> 'p State" where
  "refreshIsPlayerTurn eng props s =
     (if isPlayerTurnDeps s = currentPlayerColor props then s
      else s\<lparr>isPlayerTurn := computeIsPlayerTurn eng props s,
             isPlayerTurnDeps := currentPlayerColor props\<rparr>)"

definition refreshLegalMoves :: "'p Engine \<Rightarrow> Props \<Rightarrow> 'p State \<Rightarrow> 'p State" where
  "refreshLegalMoves eng props s =
     (let deps = (selectedSquare props s, readOnly props, showDestinations props)
      in if calculatedLegalMovesDeps s = deps then s
         else s\<lparr>calculatedLegalMoves := computeLegalMoves eng props s,
                calculatedLegalMovesDeps := deps\<rparr>)"

definition refreshArrowValidMoves :: "'p Engine \<Rightarrow> Props \<Rightarrow> 'p State \<Rightarrow> 'p State" where
  "refreshArrowValidMoves eng props s =
     (let deps = (arrowStart s, snapToValidMoves props, readOnly props)
      in if arrowValidMovesDeps s = deps then s
         else s\<lparr>arrowValidMoves := computeArrowValidMoves eng props s,
                arrowValidMovesDeps := deps\<rparr>)"

definition render :: "'p Engine \<Rightarrow> Props \<Rightarrow> 'p State \<Rightarrow> 'p State" where
  "render eng props s =
     refreshArrowValidMoves eng props (refreshLegalMoves eng props (refreshIsPlayerTurn eng props s))"

definition effectiveLegalMoves :: "Props \<Rightarrow> 'p State \<Rightarrow> Square list" where
  "effectiveLegalMoves props s =
     (if showDestinations props
      then (if length (legalMoves props) > 0 then legalMoves props else calculatedLegalMoves s)
      else [])"

subsection \<open>parseFen\<close>

definition toPiece :: "EnginePiece \<Rightarrow> Piece" where
  "toPiece square = \<lparr>ptype = etype square, color = (if ecolor square = EngineW then White else Black)\<rparr>"

text \<open>
  \<open>board[rankIndex][fileIndex] = piece\<close>. With \<open>rankIndex\<close> beyond the eight rows,
  \<open>board[rankIndex]\<close> is \<open>undefined\<close> and the assignment throws (\<open>None\<close>); a
  \<open>fileIndex\<close> beyond the row extends the row, the slots in between staying empty.
\<close>

definition setSquare :: "Board \<Rightarrow> nat \<Rightarrow> nat \<Rightarrow> Piece \<Rightarrow> Board option" where
  "setSquare b rankIndex fileIndex p =
     (if rankIndex < length b then
        let row = b ! rankIndex;
            row' = (if fileIndex < length row then row[fileIndex := Some p]
                    else row @ replicate (fileIndex - length row) None @ [Some p])
        in Some (b[rankIndex := row'])
      else None)"

text \<open>The two nested \<open>forEach\<close> loops visit the engine's squares in this order.\<close>

definition boardEntries :: "EngineBoard \<Rightarrow> (nat \<times> nat \<times> EnginePiece option) list" where
  "boardEntries position =
     concat (map (\<lambda>(rankIndex, rank). map (\<lambda>(fileIndex, square). (rankIndex, fileIndex, square))
                                          (List.enumerate 0 rank))
                 (List.enumerate 0 position))"

text \<open>The board filled so far and whether an assignment threw (the loops end there).\<close>

fun fillSquares :: "Board \<Rightarrow> (nat \<times> nat \<times> EnginePiece option) list \<Rightarrow> Board \<times> bool" where
  "fillSquares b [] = (b, False)"
| "fillSquares b ((rankIndex, fileIndex, square) # rest) =
     (case square of
        None \<Rightarrow> fillSquares b rest
      | Some q \<Rightarrow>
          (case setSquare b rankIndex fileIndex (toPiece q) of
             None \<Rightarrow> (b, True)
           | Some b' \<Rightarrow> fillSquares b' rest))"

definition emptyBoard :: Board where
  "emptyBoard = replicate 8 (replicate 8 None)"

text \<open>\<open>parseFen\<close> returns the board and what it wrote to \<open>console.error\<close>.\<close>

definition parseFen :: "'p Engine \<Rightarrow> string \<Rightarrow> Board \<times> string list" where
  "parseFen eng fenString =
     (case chessLoad eng fenString of
        None \<Rightarrow> (emptyBoard, [''[Chess960Board] Error parsing FEN:''])
      | Some p \<Rightarrow>
          (case fillSquares emptyBoard (boardEntries (chessBoard eng p)) of
             (b, threw) \<Rightarrow> (b, if threw then [''[Chess960Board] Error parsing FEN:''] else [])))"

subsection \<open>The effect that runs when the FEN changes\<close>

definition storeBoard :: "Board \<times> string list \<Rightarrow> 'p State \<Rightarrow> 'p State" where
  "storeBoard parsed s =
     (case parsed of (newBoardState, errs) \<Rightarrow>
        s\<lparr>previousBoardState :=
             (if length (boardState s) > 0 then boardState s else newBoardState),
           boardState := newBoardState,
           consoleErrors := consoleErrors s @ errs\<rparr>)"

definition resetToStart :: "'p Engine \<Rightarrow> 'p State \<Rightarrow> 'p State" where
  "resetToStart eng s =
     storeBoard (parseFen eng (chessFen eng (chessReset eng))) (s\<lparr>chess := chessReset eng\<rparr>)"

definition fenEffect :: "'p Engine \<Rightarrow> Props \<Rightarrow> 'p State \<Rightarrow> 'p State" where
  "fenEffect eng props s =
     (if truthy (fen props) then
        let f = the (fen props);
            previousFen = chessFen eng (chess s)
        in (case chessLoad eng f of
              None \<Rightarrow>
                resetToStart eng
                  (s\<lparr>consoleErrors := consoleErrors s @ [''[Chess960Board] Error loading FEN:'']\<rparr>)
            | Some p \<Rightarrow>
                (case parseFen eng f of (newBoardState, errs) \<Rightarrow>
                   let s1 = s\<lparr>chess := p\<rparr>;
                       s2 = (if length (previousBoardState s) > 0 \<and> animationDuration props > 0 \<and>
                                previousFen \<noteq> f
                             then (let d = detectAndAnimateMoves (previousBoardState s) newBoardState
                                   in s1\<lparr>animatingPieces := animating d,
                                         capturedPieces := captured d\<rparr>)
                             else s1)
                   in storeBoard (newBoardState, errs) s2))
      else resetToStart eng s)"

subsection \<open>Sound classification\<close>

definition charCode0 :: "string \<Rightarrow> int option" where
  "charCode0 t = (case t of [] \<Rightarrow> None | c # _ \<Rightarrow> Some (int (of_char c)))"

definition isPromotionMove :: "EnginePiece option \<Rightarrow> Square \<Rightarrow> bool" where
  "isPromotionMove sourcePiece square =
     (case sourcePiece of
        None \<Rightarrow> False
      | Some sp \<Rightarrow>
          etype sp = Pawn \<and>
          ((ecolor sp = EngineW \<and> length square > 1 \<and> square ! 1 = CHR ''8'') \<or>
           (ecolor sp = EngineB \<and> length square > 1 \<and> square ! 1 = CHR ''1'')))"

definition isCastleMove :: "EnginePiece option \<Rightarrow> Square \<Rightarrow> Square \<Rightarrow> bool" where
  "isCastleMove sourcePiece fromSq toSq =
     (case sourcePiece of
        None \<Rightarrow> False
      | Some sp \<Rightarrow>
          etype sp = King \<and>
          (case (charCode0 toSq, charCode0 fromSq) of
             (Some a, Some b) \<Rightarrow> \<bar>a - b\<bar> = 2
           | _ \<Rightarrow> False))"

text \<open>
  The \<open>try\<close> block that plays a sound before the move is handed to the host: the move is
  tried on a copy of the position; when the copy or the move throws, the \<open>catch\<close> plays the
  plain move sound.
\<close>

definition moveSound ::
  "'p Engine \<Rightarrow> Props \<Rightarrow> Square \<Rightarrow> Square \<Rightarrow> bool \<Rightarrow> bool \<Rightarrow> bool \<Rightarrow> 'p State \<Rightarrow> 'p State" where
  "moveSound eng props fromSq toSq isCastle isPromotion isCapture s =
     (case chessLoad eng (chessFen eng (chess s)) of
        None \<Rightarrow> playSound props ''move'' s
      | Some testChess \<Rightarrow>
          (case chessMove eng testChess fromSq toSq of
             None \<Rightarrow> playSound props ''move'' s
           | Some None \<Rightarrow> s
           | Some (Some after) \<Rightarrow>
               if isCastle then playSound props ''castle'' s
               else if isPromotion then playSound props ''promotion'' s
               else if chessInCheck eng after then playSound props ''check'' s
               else if isCapture then playSound props ''capture'' s
               else playSound props ''move'' s))"

definition callOnMove :: "Square \<Rightarrow> Square \<Rightarrow> PieceType option \<Rightarrow> 'p State \<Rightarrow> 'p State" where
  "callOnMove fromSq toSq promotion s = s\<lparr>onMoveCalls := onMoveCalls s @ [(fromSq, toSq, promotion)]\<rparr>"

subsection \<open>handleSquareClick\<close>

text \<open>
  The rook-castling gesture: the king's square and the target of the castling move that
  the handler passes to \<open>onMove\<close>, or \<open>None\<close> when the handler goes on to the normal
  selection (also when \<open>chess.moves\<close> throws, which the \<open>catch\<close> swallows).
\<close>

definition findKingSquare :: "'p Engine \<Rightarrow> 'p \<Rightarrow> Color \<Rightarrow> Square option" where
  "findKingSquare eng pos pieceColor =
     (let kingRank = (if pieceColor = White then 7 else 0) in
      map_option (rankFileToSquare kingRank)
        (find (\<lambda>f. case chessGet eng pos (rankFileToSquare kingRank f) of
                      None \<Rightarrow> False
                    | Some testPiece \<Rightarrow>
                        etype testPiece = King \<and>
                        ecolor testPiece = (if pieceColor = White then EngineW else EngineB))
              [0..<8]))"

definition isKingSideMove :: "Move \<Rightarrow> bool" where
  "isKingSideMove m =
     (case (charCode0 (moveTo m), charCode0 (moveFrom m)) of
        (Some a, Some b) \<Rightarrow> a > b
      | _ \<Rightarrow> False)"

definition rookCastleMove :: "'p Engine \<Rightarrow> Props \<Rightarrow> 'p \<Rightarrow> Piece \<Rightarrow> nat \<Rightarrow> (Square \<times> Square) option" where
  "rookCastleMove eng props pos piece file =
     (if rookCastle props \<and> ptype piece = Rook \<and>
         (currentPlayerColor props = None \<or> currentPlayerColor props = Some (color piece))
      then (case findKingSquare eng pos (color piece) of
              None \<Rightarrow> None
            | Some kingSquare \<Rightarrow>
                (case chessMoves eng pos kingSquare of
                   None \<Rightarrow> None
                 | Some moves \<Rightarrow>
                     (case find (\<lambda>m. CHR ''k'' \<in> set (flags m) \<or> CHR ''q'' \<in> set (flags m)) moves of
                        None \<Rightarrow> None
                      | Some castlingMove \<Rightarrow>
                          let rookFile = int file;
                              isKingside = (case charCode0 kingSquare of
                                              None \<Rightarrow> False
                                            | Some c \<Rightarrow> rookFile > c - 97)
                          in (case find (\<lambda>m.
                                     (isKingside \<and> isKingSideMove m \<and> CHR ''k'' \<in> set (flags m)) \<or>
                                     (\<not> isKingside \<and> \<not> isKingSideMove m \<and> CHR ''q'' \<in> set (flags m)))
                                   moves of
                                None \<Rightarrow> None
                              | Some castleMove \<Rightarrow> Some (kingSquare, moveTo castleMove)))))
      else None)"

text \<open>
  The part of \<open>handleSquareClick\<close> after the read-only, arrow-erase and input-mode
  checks: the click-to-move path.
\<close>

definition clickToMove :: "'p Engine \<Rightarrow> Props \<Rightarrow> nat \<Rightarrow> nat \<Rightarrow> 'p State \<Rightarrow> 'p State" where
  "clickToMove eng props rank file s =
     (let square = rankFileToSquare rank file in
      if truthy (selectedSquare props s) then
        let sel = the (selectedSquare props s);
            s1 = (if sel \<noteq> square then
                    (if length (effectiveLegalMoves props s) = 0 \<or>
                        square \<in> set (effectiveLegalMoves props s)
                     then
                       let targetPiece = pieceAt (boardState s) rank file;
                           isCapture = (targetPiece \<noteq> None);
                           sourcePiece = chessGet eng (chess s) sel;
                           isPromotion = isPromotionMove sourcePiece square;
                           isCastle = isCastleMove sourcePiece sel square
                       in callOnMove sel square None
                            (moveSound eng props sel square isCastle isPromotion isCapture s)
                     else s)
                  else s)
        in setInternalSelectedSquare props None s1
      else
        (case pieceAt (boardState s) rank file of
           None \<Rightarrow> s
         | Some piece \<Rightarrow>
             (case rookCastleMove eng props (chess s) piece file of
                Some (kingSquare, castleTo) \<Rightarrow>
                  setInternalSelectedSquare props None
                    (callOnMove kingSquare castleTo None (playSound props ''castle'' s))
              | None \<Rightarrow> setInternalSelectedSquare props (Some square) s)))"

text \<open>
  \<open>arrows.filter(arrow => arrow !== clickedArrow)\<close> compares objects by identity: it
  removes the arrow that \<open>find\<close> returned, the first one that touches the square.
\<close>

definition handleSquareClick :: "'p Engine \<Rightarrow> Props \<Rightarrow> nat \<Rightarrow> nat \<Rightarrow> 'p State \<Rightarrow> 'p State" where
  "handleSquareClick eng props rank file s =
     (if readOnly props \<or> \<not> onMove props then s
      else
        let square = rankFileToSquare rank file;
            clickedArrow =
              (if eraseArrowsOnClick props \<and> length (arrows props) > 0 \<and> onArrowsChange props
               then find (\<lambda>arrow. startSquare arrow = square \<or> endSquare arrow = square) (arrows props)
               else None)
        in (case clickedArrow of
              Some a \<Rightarrow> s\<lparr>onArrowsChangeCalls := onArrowsChangeCalls s @ [remove1 a (arrows props)]\<rparr>
            | None \<Rightarrow> if \<not> isClickEnabled props then s else clickToMove eng props rank file s))"

text \<open>
  \<open>handleTouchStart\<close>; whether the touch falls outside the ignore radius is computed from
  the touch coordinates and is an input here.
\<close>

definition handleTouchStart :: "'p Engine \<Rightarrow> Props \<Rightarrow> bool \<Rightarrow> nat \<Rightarrow> nat \<Rightarrow> 'p State \<Rightarrow> 'p State" where
  "handleTouchStart eng props shouldIgnoreTouch rank file s =
     (if readOnly props \<or> \<not> onMove props then s
      else if shouldIgnoreTouch then s
      else handleSquareClick eng props rank file s)"

subsection \<open>Drag and drop\<close>

definition handleDragStart :: "Props \<Rightarrow> nat \<Rightarrow> nat \<Rightarrow> 'p State \<Rightarrow> 'p State" where
  "handleDragStart props rank file s =
     (if readOnly props then s
      else
        let square = rankFileToSquare rank file in
        (case pieceAt (boardState s) rank file of
           None \<Rightarrow> s
         | Some piece \<Rightarrow>
             if (case currentPlayerColor props of
                   None \<Rightarrow> False
                 | Some c \<Rightarrow> color piece \<noteq> c \<and> (\<not> enablePremove props \<or> isPlayerTurn s))
             then s
             else setInternalSelectedSquare props (Some square)
                    (s\<lparr>draggedPiece := Some (square, piece)\<rparr>)))"

definition handleDragOver :: "nat \<Rightarrow> nat \<Rightarrow> 'p State \<Rightarrow> 'p State" where
  "handleDragOver rank file s = s\<lparr>dragOverSquare := Some (rankFileToSquare rank file)\<rparr>"

definition handleDrop :: "'p Engine \<Rightarrow> Props \<Rightarrow> nat \<Rightarrow> nat \<Rightarrow> 'p State \<Rightarrow> 'p State" where
  "handleDrop eng props rank file s =
     (case draggedPiece s of
        None \<Rightarrow> s
      | Some (draggedSquare, dragged) \<Rightarrow>
          let targetSquare = rankFileToSquare rank file;
              targetPiece = pieceAt (boardState s) rank file;
              sourcePiece = chessGet eng (chess s) draggedSquare;
              isPromotion = isPromotionMove sourcePiece targetSquare;
              finish = (\<lambda>s. setInternalSelectedSquare props None
                              (s\<lparr>draggedPiece := None, dragOverSquare := None\<rparr>))
          in (case chessMoves eng (chess s) draggedSquare of
                None \<Rightarrow>
                  finish (s\<lparr>consoleErrors :=
                              consoleErrors s @ [''[Chess960Board] Error validating move:'']\<rparr>)
              | Some moves \<Rightarrow>
                  let isValid = (\<exists>m \<in> set moves. moveTo m = targetSquare) in
                  if \<not> isValid \<and> \<not> enablePremove props then
                    s\<lparr>draggedPiece := None, dragOverSquare := None\<rparr>
                  else if isPromotion \<and> onPromotionSelect props then
                    s\<lparr>pendingPromotion := Some (draggedSquare, targetSquare),
                      showPromotionDialog := True,
                      draggedPiece := None, dragOverSquare := None\<rparr>
                  else if isValid \<or> enablePremove props then
                    let promotionPiece = (if isPromotion then Some Queen else None) in
                    if onMove props then
                      if enablePremove props \<and> \<not> isPlayerTurn s then
                        finish (s\<lparr>premoves := premoves s @ [(draggedSquare, targetSquare)]\<rparr>)
                      else
                        finish (callOnMove draggedSquare targetSquare promotionPiece
                                  (moveSound eng props draggedSquare targetSquare
                                     (isCastleMove sourcePiece draggedSquare targetSquare)
                                     isPromotion (targetPiece \<noteq> None) s))
                    else finish s
                  else finish s))"

definition handleDragEnd :: "'p State \<Rightarrow> 'p State" where
  "handleDragEnd s = s\<lparr>draggedPiece := None, dragOverSquare := None\<rparr>"

subsection \<open>Right click\<close>

definition newArrowColor :: string where
  "newArrowColor = ''rgba(255, 170, 0, 0.5)''"

definition handleContextMenu :: "Props \<Rightarrow> nat \<Rightarrow> nat \<Rightarrow> 'p State \<Rightarrow> 'p State" where
  "handleContextMenu props rank file s =
     (if readOnly props then s
      else
        let square = rankFileToSquare rank file in
        if length (premoves s) > 0 then s\<lparr>premoves := []\<rparr>
        else if onArrowsChange props then
          (if \<not> truthy (arrowStart s) then
             s\<lparr>arrowStart := Some square, isDrawingArrow := True, dragOverSquare := Some square\<rparr>
           else
             let start = the (arrowStart s);
                 endSq = (if snapToValidMoves props \<and> truthy (dragOverSquare s) \<and>
                             the (dragOverSquare s) \<in> set (arrowValidMoves s)
                          then the (dragOverSquare s) else square);
                 s1 = (if start \<noteq> endSq then
                         s\<lparr>onArrowsChangeCalls :=
                              onArrowsChangeCalls s @
                                [arrows props @
                                   [\<lparr>startSquare = start, endSquare = endSq,
                                      arrowColor = Some newArrowColor\<rparr>]]\<rparr>
                       else s)
             in s1\<lparr>arrowStart := None, isDrawingArrow := False, dragOverSquare := None\<rparr>)
        else
          (if square \<in> set (rightClickedSquares s)
           then s\<lparr>rightClickedSquares := removeAll square (rightClickedSquares s)\<rparr>
           else s\<lparr>rightClickedSquares := rightClickedSquares s @ [square]\<rparr>))"

subsection \<open>Keyboard input\<close>

definition isFileChar :: "char \<Rightarrow> bool" where
  "isFileChar c = (97 \<le> (of_char c :: nat) \<and> (of_char c :: nat) \<le> 104)"

definition isRankChar :: "char \<Rightarrow> bool" where
  "isRankChar c = (49 \<le> (of_char c :: nat) \<and> (of_char c :: nat) \<le> 56)"

text \<open>The regular expression \<open>/^[a-h][1-8][a-h][1-8]$/\<close>.\<close>

definition isUci :: "string \<Rightarrow> bool" where
  "isUci t = (case t of
                [a, b, c, d] \<Rightarrow> isFileChar a \<and> isRankChar b \<and> isFileChar c \<and> isRankChar d
              | _ \<Rightarrow> False)"

text \<open>The regular expression \<open>/^[a-h0-8o-]$/i\<close> on the name of the key.\<close>

definition isMoveKey :: "string \<Rightarrow> bool" where
  "isMoveKey key =
     (case toLowerCase key of
        [c] \<Rightarrow> isFileChar c \<or> (48 \<le> (of_char c :: nat) \<and> (of_char c :: nat) \<le> 56) \<or>
                c = CHR ''o'' \<or> c = CHR ''-''
      | _ \<Rightarrow> False)"

definition isSpace :: "char \<Rightarrow> bool" where
  "isSpace c = ((of_char c :: nat) \<in> {9, 10, 11, 12, 13, 32})"

definition trim :: "string \<Rightarrow> string" where
  "trim t = rev (dropWhile isSpace (rev (dropWhile isSpace t)))"

definition parseKeyboardMove :: "'p Engine \<Rightarrow> 'p State \<Rightarrow> string \<Rightarrow> (Square \<times> Square) option" where
  "parseKeyboardMove eng s input0 =
     (let input = toLowerCase (trim input0) in
      if isUci input then Some (take 2 input, take 2 (drop 2 input))
      else if input = ''o-o'' \<or> input = ''0-0'' then
        (let rank = (if chessTurn eng (chess s) = EngineW then 7 else 0)
         in Some (rankFileToSquare rank 4, rankFileToSquare rank 7))
      else if input = ''o-o-o'' \<or> input = ''0-0-0'' then
        (let rank = (if chessTurn eng (chess s) = EngineW then 7 else 0)
         in Some (rankFileToSquare rank 4, rankFileToSquare rank 0))
      else (case chessAllMoves eng (chess s) of
              None \<Rightarrow> None
            | Some moves \<Rightarrow>
                (case find (\<lambda>m. toLowerCase (san m) = input) moves of
                   None \<Rightarrow> None
                 | Some m \<Rightarrow> Some (moveFrom m, moveTo m))))"

definition submitKeyboardMove :: "'p Engine \<Rightarrow> Props \<Rightarrow> 'p State \<Rightarrow> 'p State" where
  "submitKeyboardMove eng props s =
     (case parseKeyboardMove eng s (keyboardInput s) of
        None \<Rightarrow> s
      | Some (fromSq, toSq) \<Rightarrow>
          if onMove props then (callOnMove fromSq toSq None s)\<lparr>keyboardInput := []\<rparr> else s)"

text \<open>The branch of the key listener for a key that can be part of a move.\<close>

definition typeMoveKey :: "'p Engine \<Rightarrow> Props \<Rightarrow> string \<Rightarrow> 'p State \<Rightarrow> 'p State" where
  "typeMoveKey eng props key s =
     (let s1 = s\<lparr>keyboardInput := keyboardInput s @ toLowerCase key\<rparr>;
          s2 = (if length (keyboardInput s1) = 4 \<and> isUci (keyboardInput s1)
                then submitKeyboardMove eng props s1 else s1)
      in if onKeyboardInput props
         then s2\<lparr>onKeyboardInputCalls := onKeyboardInputCalls s2 @ [keyboardInput s2]\<rparr>
         else s2)"

text \<open>
  The listener of the keyboard effect, attached while \<open>enableKeyboard\<close> holds and the
  board is not read-only. \<open>targetIsInput\<close> says whether the event's target is a text
  field.
\<close>

definition handleKeyDown :: "'p Engine \<Rightarrow> Props \<Rightarrow> bool \<Rightarrow> string \<Rightarrow> 'p State \<Rightarrow> 'p State" where
  "handleKeyDown eng props targetIsInput key s =
     (if targetIsInput then s
      else if key = ''Escape'' then setInternalSelectedSquare props None (s\<lparr>keyboardInput := []\<rparr>)
      else if key = ''Backspace'' then s\<lparr>keyboardInput := butlast (keyboardInput s)\<rparr>
      else if key = ''Enter'' then submitKeyboardMove eng props s
      else if isMoveKey key then typeMoveKey eng props key s
      else s)"

text \<open>The second key listener, always attached: Escape ends arrow drawing.\<close>

definition handleEscape :: "Props \<Rightarrow> string \<Rightarrow> 'p State \<Rightarrow> 'p State" where
  "handleEscape props key s =
     (if key = ''Escape'' then
        let s1 = s\<lparr>arrowStart := None, isDrawingArrow := False, rightClickedSquares := []\<rparr>
        in if onArrowsChange props
           then s1\<lparr>onArrowsChangeCalls := onArrowsChangeCalls s1 @ [[]]\<rparr> else s1
      else s)"

subsection \<open>Mounting and events\<close>

datatype Exception = InvalidFen

text \<open>
  The first render creates the engine object with \<open>useState(() => new Chess(fen))\<close>; a
  constructor that throws ends the render with that exception. Without a \<open>fen\<close> the
  constructor uses its default, the standard starting position. The first render fills
  the memo cells, then the FEN effect runs and the component renders again.
\<close>

definition firstRender :: "'p Engine \<Rightarrow> Props \<Rightarrow> 'p \<Rightarrow> 'p State" where
  "firstRender eng props c =
     (let s = \<lparr>chess = c, boardState = [], previousBoardState = [],
               animatingPieces = [], capturedPieces = [],
               internalSelectedSquare = None, draggedPiece = None, dragOverSquare = None,
               rightClickedSquares = [], arrowStart = None, isDrawingArrow = False,
               premoves = [], showPromotionDialog = False, pendingPromotion = None,
               keyboardInput = [],
               isPlayerTurn = True, isPlayerTurnDeps = currentPlayerColor props,
               calculatedLegalMoves = [],
               calculatedLegalMovesDeps = (None, readOnly props, showDestinations props),
               arrowValidMoves = [],
               arrowValidMovesDeps = (None, snapToValidMoves props, readOnly props),
               onMoveCalls = [], onArrowsChangeCalls = [], onKeyboardInputCalls = [],
               soundsPlayed = [], consoleErrors = []\<rparr>
      in s\<lparr>isPlayerTurn := computeIsPlayerTurn eng props s,
            calculatedLegalMoves := computeLegalMoves eng props s,
            calculatedLegalMovesDeps := (selectedSquare props s, readOnly props, showDestinations props),
            arrowValidMoves := computeArrowValidMoves eng props s\<rparr>)"

definition mount :: "'p Engine \<Rightarrow> Props \<Rightarrow> Exception + 'p State" where
  "mount eng props =
     (case (case fen props of None \<Rightarrow> Some (chessReset eng) | Some f \<Rightarrow> chessLoad eng f) of
        None \<Rightarrow> Inl InvalidFen
      | Some c \<Rightarrow> Inr (render eng props (fenEffect eng props (firstRender eng props c))))"

datatype Event =
    FenEffect
  | SquareClick nat nat
  | TouchStart bool nat nat
  | DragStart nat nat
  | DragOver nat nat
  | DragLeave
  | Drop nat nat
  | DragEnd
  | ContextMenu nat nat
  | KeyDown bool string

text \<open>
  A piece can be dragged when the board is not read-only and dragging is enabled (the
  \<open>draggable\<close> attribute). The handlers for hovering while an arrow is drawn and for the
  resize handle are not modelled; they call neither \<open>onMove\<close> nor \<open>setPremoves\<close>.
\<close>

definition handle :: "'p Engine \<Rightarrow> Props \<Rightarrow> Event \<Rightarrow> 'p State \<Rightarrow> 'p State" where
  "handle eng props ev s =
     (case ev of
        FenEffect \<Rightarrow> fenEffect eng props s
      | SquareClick rank file \<Rightarrow> handleSquareClick eng props rank file s
      | TouchStart ignore rank file \<Rightarrow> handleTouchStart eng props ignore rank file s
      | DragStart rank file \<Rightarrow>
          if \<not> readOnly props \<and> isDragEnabled props then handleDragStart props rank file s else s
      | DragOver rank file \<Rightarrow> handleDragOver rank file s
      | DragLeave \<Rightarrow> s\<lparr>dragOverSquare := None\<rparr>
      | Drop rank file \<Rightarrow> handleDrop eng props rank file s
      | DragEnd \<Rightarrow> handleDragEnd s
      | ContextMenu rank file \<Rightarrow> handleContextMenu props rank file s
      | KeyDown targetIsInput key \<Rightarrow>
          handleEscape props key
            (if enableKeyboard props \<and> \<not> readOnly props
             then handleKeyDown eng props targetIsInput key s else s))"

text \<open>
  One step: the component is rendered with the current properties, the event's handler
  runs, and the state change renders the component again.
\<close>

definition step :: "'p Engine \<Rightarrow> Props \<Rightarrow> Event \<Rightarrow> 'p State \<Rightarrow> 'p State" where
  "step eng props ev s = render eng props (handle eng props ev (render eng props s))"

fun run :: "'p Engine \<Rightarrow> (Props \<times> Event) list \<Rightarrow> 'p State \<Rightarrow> 'p State" where
  "run eng [] s = s"
| "run eng ((props, ev) # rest) s = run eng rest (step eng props ev s)"

text \<open>
  The part of the state that a call of \<open>onMove\<close> can depend on: everything but the
  premove queue and the cells used for arrows and square highlights.
\<close>

definition moveCore :: "'p State \<Rightarrow> 'p State" where
  "moveCore s =
     s\<lparr>premoves := [], dragOverSquare := None, rightClickedSquares := [], arrowStart := None,
       isDrawingArrow := False, arrowValidMoves := [],
       arrowValidMovesDeps := (None, False, False), onArrowsChangeCalls := []\<rparr>"

subsection \<open>An engine that reads positions\<close>

text \<open>
  For evaluating the component on concrete inputs: an engine over FEN texts that accepts
  what \<open>readFEN\<close> accepts and answers the questions about the position itself. It has
  no move generator: it reports no legal move and throws on every attempted move.
\<close>

definition DEFAULT_POSITION :: string where
  "DEFAULT_POSITION = ''rnbqkbnr/pppppppp/8/8/8/8/PPPPPPPP/RNBQKBNR w KQkq - 0 1''"

definition squareIndex :: "Square \<Rightarrow> (nat \<times> nat) option" where
  "squareIndex sq =
     (case sq of
        [f, r] \<Rightarrow> if isFileChar f \<and> isRankChar r
                  then Some (56 - (of_char r :: nat), (of_char f :: nat) - 97) else None
      | _ \<Rightarrow> None)"

definition readerEngine :: "string Engine" where
  "readerEngine =
     \<lparr>chessLoad = (\<lambda>f. case readFEN f of None \<Rightarrow> None | Some _ \<Rightarrow> Some f),
      chessReset = DEFAULT_POSITION,
      chessFen = (\<lambda>p. p),
      chessBoard = (\<lambda>p. case readFEN p of None \<Rightarrow> [] | Some x \<Rightarrow> placement x),
      chessTurn = (\<lambda>p. case readFEN p of
                          None \<Rightarrow> EngineW
                        | Some x \<Rightarrow> if sideToMove x = ''b'' then EngineB else EngineW),
      chessGet = (\<lambda>p sq. case (readFEN p, squareIndex sq) of
                            (Some x, Some (r, f)) \<Rightarrow>
                              (if r < length (placement x) \<and> f < length (placement x ! r)
                               then placement x ! r ! f else None)
                          | _ \<Rightarrow> None),
      chessMoves = (\<lambda>p sq. Some []),
      chessAllMoves = (\<lambda>p. Some []),
      chessMove = (\<lambda>p a b. None),
      chessInCheck = (\<lambda>p. False)\<rparr>"

definition defaultProps :: Props where
  "defaultProps =
     \<lparr>fen = None, onMove = False, readOnly = False, externalSelectedSquare = None,
      legalMoves = [], currentPlayerColor = None, arrows = [], onArrowsChange = False,
      enablePremove = False, onPromotionSelect = False, animationDuration = 200,
      showDestinations = True, snapToValidMoves = True, rookCastle = True,
      enableKeyboard = False, onKeyboardInput = False, soundsEnabled = False,
      moveInputMode = Both, eraseArrowsOnClick = False\<rparr>"

subsection \<open>Concrete inputs\<close>

text \<open>
  Positions and properties used to evaluate the component: the position after 1. e4, the
  one after 1. e4 e5, the one after 1. e4 d5 and the one after 1. e4 d5 2. exd5; a host
  that plays Black with premoves enabled, and one that plays White.
\<close>

definition FEN_AFTER_E4 :: string where
  "FEN_AFTER_E4 = ''rnbqkbnr/pppppppp/8/8/4P3/8/PPPP1PPP/RNBQKBNR b KQkq - 0 1''"

definition FEN_AFTER_E4_E5 :: string where
  "FEN_AFTER_E4_E5 = ''rnbqkbnr/pppp1ppp/8/4p3/4P3/8/PPPP1PPP/RNBQKBNR w KQkq - 0 2''"

definition FEN_AFTER_E4_D5 :: string where
  "FEN_AFTER_E4_D5 = ''rnbqkbnr/ppp1pppp/8/3p4/4P3/8/PPPP1PPP/RNBQKBNR w KQkq - 0 2''"

definition FEN_AFTER_EXD5 :: string where
  "FEN_AFTER_EXD5 = ''rnbqkbnr/ppp1pppp/8/3P4/8/8/PPPP1PPP/RNBQKBNR b KQkq - 0 2''"

definition boardOf :: "string \<Rightarrow> Board" where
  "boardOf f = fst (parseFen readerEngine f)"

definition blackPlayerProps :: Props where
  "blackPlayerProps =
     defaultProps\<lparr>fen := Some DEFAULT_POSITION, onMove := True,
                  currentPlayerColor := Some Black, enablePremove := True\<rparr>"

definition whitePlayerProps :: Props where
  "whitePlayerProps =
     defaultProps\<lparr>fen := Some DEFAULT_POSITION, onMove := True,
                  currentPlayerColor := Some White, enablePremove := True\<rparr>"

text \<open>The state after mounting with a FEN that the engine accepts.\<close>

definition mounted :: "Props \<Rightarrow> string State" where
  "mounted props =
     (case mount readerEngine props of
        Inr s \<Rightarrow> s
      | Inl _ \<Rightarrow> firstRender readerEngine props DEFAULT_POSITION)"

text \<open>Black drags the pawn from e7 and drops it on e5 while White is to move.\<close>

definition queuedState :: "string State" where
  "queuedState =
     run readerEngine [(blackPlayerProps, DragStart 1 4), (blackPlayerProps, Drop 3 4)]
       (mounted blackPlayerProps)"

text \<open>White has clicked the pawn on e2; White has picked up the pawn on e2.\<close>

definition selectedState :: "string State" where
  "selectedState = run readerEngine [(whitePlayerProps, SquareClick 6 4)] (mounted whitePlayerProps)"

definition draggingState :: "string State" where
  "draggingState = run readerEngine [(whitePlayerProps, DragStart 6 4)] (mounted whitePlayerProps)"

text \<open>
  Black is the player and the component was mounted on the starting position; the FEN
  after 1. e4 has arrived, so that Black is to move, and Black has picked up the pawn on
  e7.
\<close>

definition blackToMoveProps :: Props where
  "blackToMoveProps = blackPlayerProps\<lparr>fen := Some FEN_AFTER_E4\<rparr>"

definition blackDraggingState :: "string State" where
  "blackDraggingState =
     run readerEngine [(blackToMoveProps, FenEffect), (blackToMoveProps, DragStart 1 4)]
       (mounted blackPlayerProps)"

section \<open>Properties of the position generator\<close>

lemma filesOf_mem: "i \<in> set (filesOf x ps) \<Longrightarrow> i < length ps \<and> ps ! i = x"
  by (simp add: filesOf_def)

lemma validBackRank_sound:
  assumes "validBackRank ps"
  shows "length ps = 8 \<and>
         count_list ps KING = 1 \<and> count_list ps QUEEN = 1 \<and> count_list ps ROOK = 2 \<and>
         count_list ps KNIGHT = 2 \<and> count_list ps BISHOP = 2 \<and>
         (\<exists>r1 k r2. r1 < k \<and> k < r2 \<and> r2 < 8 \<and> ps ! r1 = ROOK \<and> ps ! k = KING \<and> ps ! r2 = ROOK) \<and>
         (\<exists>b1 b2. b1 < 8 \<and> b2 < 8 \<and> ps ! b1 = BISHOP \<and> ps ! b2 = BISHOP \<and> even b1 \<and> odd b2)"
proof -
  from assms have len: "length ps = 8" and counts: "count_list ps KING = 1"
      "count_list ps QUEEN = 1" "count_list ps ROOK = 2" "count_list ps KNIGHT = 2"
      "count_list ps BISHOP = 2"
    by (simp_all add: validBackRank_def)
  from assms obtain k r1 r2 b1 b2 where
      fk: "filesOf KING ps = [k]" and fr: "filesOf ROOK ps = [r1, r2]"
      and fb: "filesOf BISHOP ps = [b1, b2]"
      and ord: "r1 < k" "k < r2" and par: "even b1 \<noteq> even b2"
    by (auto simp: validBackRank_def split: list.splits)
  have k: "k < length ps \<and> ps ! k = KING" using filesOf_mem[of k KING ps] fk by simp
  have r1: "r1 < length ps \<and> ps ! r1 = ROOK" using filesOf_mem[of r1 ROOK ps] fr by simp
  have r2: "r2 < length ps \<and> ps ! r2 = ROOK" using filesOf_mem[of r2 ROOK ps] fr by simp
  have b1: "b1 < length ps \<and> ps ! b1 = BISHOP" using filesOf_mem[of b1 BISHOP ps] fb by simp
  have b2: "b2 < length ps \<and> ps ! b2 = BISHOP" using filesOf_mem[of b2 BISHOP ps] fb by simp
  have rook: "\<exists>r1 k r2. r1 < k \<and> k < r2 \<and> r2 < 8 \<and> ps ! r1 = ROOK \<and> ps ! k = KING \<and> ps ! r2 = ROOK"
    using k r1 r2 ord len by auto
  have bish: "\<exists>b1 b2. b1 < 8 \<and> b2 < 8 \<and> ps ! b1 = BISHOP \<and> ps ! b2 = BISHOP \<and> even b1 \<and> odd b2"
  proof (cases "even b1")
    case True
    then show ?thesis using b1 b2 par len by auto
  next
    case False
    then show ?thesis using b1 b2 par len by auto
  qed
  show ?thesis using len counts rook bish by simp
qed

lemma checkRangeD:
  "checkRange lo hi \<Longrightarrow> lo \<le> n \<Longrightarrow> n \<le> hi \<Longrightarrow> \<exists>ps. positionToBackRank n = Inr ps \<and> validBackRank ps"
proof -
  assume c: "checkRange lo hi" and b: "lo \<le> n" "n \<le> hi"
  from b have "n \<in> set [lo..hi]" by simp
  with c have "case positionToBackRank n of Inr ps \<Rightarrow> validBackRank ps | Inl _ \<Rightarrow> False"
    unfolding checkRange_def list_all_iff by blast
  then show ?thesis by (cases "positionToBackRank n") simp_all
qed

lemma check_1_120: "checkRange 1 120" by code_simp
lemma check_121_240: "checkRange 121 240" by code_simp
lemma check_241_360: "checkRange 241 360" by code_simp
lemma check_361_480: "checkRange 361 480" by code_simp
lemma check_481_600: "checkRange 481 600" by code_simp
lemma check_601_720: "checkRange 601 720" by code_simp
lemma check_721_840: "checkRange 721 840" by code_simp
lemma check_841_960: "checkRange 841 960" by code_simp

lemma positionToBackRank_checked:
  assumes "1 \<le> n" "n \<le> 960"
  shows "\<exists>ps. positionToBackRank n = Inr ps \<and> validBackRank ps"
proof -
  consider "n \<le> 120" | "121 \<le> n" "n \<le> 240" | "241 \<le> n" "n \<le> 360" | "361 \<le> n" "n \<le> 480"
    | "481 \<le> n" "n \<le> 600" | "601 \<le> n" "n \<le> 720" | "721 \<le> n" "n \<le> 840" | "841 \<le> n"
    by linarith
  then show ?thesis
  proof cases
    case 1 then show ?thesis using checkRangeD[OF check_1_120] assms by simp
  next
    case 2 then show ?thesis using checkRangeD[OF check_121_240] by simp
  next
    case 3 then show ?thesis using checkRangeD[OF check_241_360] by simp
  next
    case 4 then show ?thesis using checkRangeD[OF check_361_480] by simp
  next
    case 5 then show ?thesis using checkRangeD[OF check_481_600] by simp
  next
    case 6 then show ?thesis using checkRangeD[OF check_601_720] by simp
  next
    case 7 then show ?thesis using checkRangeD[OF check_721_840] by simp
  next
    case 8 then show ?thesis using checkRangeD[OF check_841_960] assms by simp
  qed
qed

text \<open>
  Claim C2. For every position number \<open>n\<close> in [1, 960], \<open>positionToBackRank n\<close> returns
  eight letters with exactly one king, one queen, two rooks, two knights and two bishops;
  the king stands on a file strictly between the files of the two rooks, and one bishop
  stands on an even and the other on an odd (0-indexed) file.
\<close>

theorem positionToBackRank_valid:
  assumes "1 \<le> n" "n \<le> 960"
  shows "\<exists>ps. positionToBackRank n = Inr ps \<and> length ps = 8 \<and>
         count_list ps KING = 1 \<and> count_list ps QUEEN = 1 \<and> count_list ps ROOK = 2 \<and>
         count_list ps KNIGHT = 2 \<and> count_list ps BISHOP = 2 \<and>
         (\<exists>r1 k r2. r1 < k \<and> k < r2 \<and> r2 < 8 \<and> ps ! r1 = ROOK \<and> ps ! k = KING \<and> ps ! r2 = ROOK) \<and>
         (\<exists>b1 b2. b1 < 8 \<and> b2 < 8 \<and> ps ! b1 = BISHOP \<and> ps ! b2 = BISHOP \<and> even b1 \<and> odd b2)"
proof -
  from positionToBackRank_checked[OF assms] obtain ps where
    "positionToBackRank n = Inr ps" "validBackRank ps" by blast
  then show ?thesis using validBackRank_sound[of ps] by blast
qed

theorem positionToBackRank_valid_witness:
  "\<exists>ps. positionToBackRank 960 = Inr ps \<and> length ps = 8 \<and>
         count_list ps KING = 1 \<and> count_list ps QUEEN = 1 \<and> count_list ps ROOK = 2 \<and>
         count_list ps KNIGHT = 2 \<and> count_list ps BISHOP = 2 \<and>
         (\<exists>r1 k r2. r1 < k \<and> k < r2 \<and> r2 < 8 \<and> ps ! r1 = ROOK \<and> ps ! k = KING \<and> ps ! r2 = ROOK) \<and>
         (\<exists>b1 b2. b1 < 8 \<and> b2 < 8 \<and> ps ! b1 = BISHOP \<and> ps ! b2 = BISHOP \<and> even b1 \<and> odd b2)"
  using positionToBackRank_valid[of 960] by simp

lemma knight_index_bound:
  assumes "1 \<le> n" "n \<le> (960::int)"
  shows "0 \<le> (n - 1) div 4 div 4 div 6 \<and> (n - 1) div 4 div 4 div 6 < 10"
proof -
  have "(n - 1) div 4 div 4 div 6 = (n - 1) div 96"
    by (simp add: zdiv_zmult2_eq[symmetric])
  then show ?thesis using assms by arith
qed

text \<open>
  Claim C9. \<open>positionToBackRank n\<close> raises the out-of-range error for every \<open>n\<close>
  outside [1, 960], in particular for 0 and 961, and returns a back rank (raises nothing)
  for every \<open>n\<close> in [1, 960].
\<close>

theorem positionToBackRank_range:
  "(n < 1 \<or> 960 < n \<longrightarrow> positionToBackRank n = Inl OutOfRange) \<and>
   (1 \<le> n \<and> n \<le> 960 \<longrightarrow> (\<exists>ps. positionToBackRank n = Inr ps)) \<and>
   positionToBackRank 0 = Inl OutOfRange \<and> positionToBackRank 961 = Inl OutOfRange"
proof -
  have out: "n < 1 \<or> 960 < n \<longrightarrow> positionToBackRank n = Inl OutOfRange"
    by (auto simp: positionToBackRank_def)
  have inr: "1 \<le> n \<and> n \<le> 960 \<longrightarrow> (\<exists>ps. positionToBackRank n = Inr ps)"
  proof
    assume a: "1 \<le> n \<and> n \<le> 960"
    then have "0 \<le> (n - 1) div 4 div 4 div 6 \<and> (n - 1) div 4 div 4 div 6 < 10"
      using knight_index_bound by simp
    moreover have "length knightPlacements = 10"
      by (simp add: knightPlacements_def)
    ultimately have "0 \<le> (n - 1) div 4 div 4 div 6 \<and> nat ((n - 1) div 4 div 4 div 6) < length knightPlacements"
      by linarith
    with a show "\<exists>ps. positionToBackRank n = Inr ps"
      by (simp add: positionToBackRank_def Let_def)
  qed
  have "positionToBackRank 0 = Inl OutOfRange" "positionToBackRank 961 = Inl OutOfRange"
    by (simp_all add: positionToBackRank_def)
  with out inr show ?thesis by simp
qed

theorem positionToBackRank_range_witness:
  "positionToBackRank (- 5) = Inl OutOfRange \<and> (\<exists>ps. positionToBackRank 1 = Inr ps)"
  using positionToBackRank_range[of "- 5"] positionToBackRank_range[of 1] by simp

text \<open>
  Claim C1 says that position number 518 is the standard back rank RNBQKBNR. The code
  subtracts one before decoding, so 518 is decoded as Scharnagl's number 517 and the
  queen and the king-side bishop come out shifted: the result is RNBBQKNR. The standard
  arrangement is returned for 519.
\<close>

theorem positionToBackRank_518:
  "positionToBackRank 518 = Inr [''R'', ''N'', ''B'', ''B'', ''Q'', ''K'', ''N'', ''R'']"
  by code_simp

lemma positionToBackRank_519:
  "positionToBackRank 519 = Inr [''R'', ''N'', ''B'', ''Q'', ''K'', ''B'', ''N'', ''R'']"
  by code_simp

section \<open>Properties of backRankToFEN\<close>

lemma splitOn_no_sep: "c \<notin> set w \<Longrightarrow> splitOn c w = [w]"
  by (induction w) auto

lemma splitOn_append: "c \<notin> set w \<Longrightarrow> splitOn c (w @ c # rest) = w # splitOn c rest"
  by (induction w) auto

lemma letter_cases:
  assumes "s \<in> pieceLetters"
  obtains "s = ''R''" | "s = ''N''" | "s = ''B''" | "s = ''Q''" | "s = ''K''"
  using assms by (auto simp: pieceLetters_def ROOK_def KNIGHT_def BISHOP_def QUEEN_def KING_def)

lemma lower_letters:
  "toLowerCase ''R'' = ''r''" "toLowerCase ''N'' = ''n''" "toLowerCase ''B'' = ''b''"
  "toLowerCase ''Q'' = ''q''" "toLowerCase ''K'' = ''k''"
  by code_simp+

lemma upper_letters:
  "toUpperCase ''R'' = ''R''" "toUpperCase ''N'' = ''N''" "toUpperCase ''B'' = ''B''"
  "toUpperCase ''Q'' = ''Q''" "toUpperCase ''K'' = ''K''"
  by code_simp+

lemma type_letters:
  "typeLetter Rook = ''R''" "typeLetter Knight = ''N''" "typeLetter Bishop = ''B''"
  "typeLetter Queen = ''Q''" "typeLetter King = ''K''"
  by code_simp+

lemma letter_upper:
  assumes "s \<in> pieceLetters"
  shows "\<exists>t. toUpperCase s = s \<and> t \<noteq> Pawn \<and> typeLetter t = s \<and>
             (\<forall>rest. fenSquares (s @ rest) =
                map_option ((#) (Some \<lparr>etype = t, ecolor = EngineW\<rparr>)) (fenSquares rest))"
  using assms
proof (cases rule: letter_cases)
  case 1
  then show ?thesis
    by (intro exI[of _ Rook]) (simp add: upper_letters type_letters emptyRun_def pieceOfChar_def split: option.split)
next
  case 2
  then show ?thesis
    by (intro exI[of _ Knight]) (simp add: upper_letters type_letters emptyRun_def pieceOfChar_def split: option.split)
next
  case 3
  then show ?thesis
    by (intro exI[of _ Bishop]) (simp add: upper_letters type_letters emptyRun_def pieceOfChar_def split: option.split)
next
  case 4
  then show ?thesis
    by (intro exI[of _ Queen]) (simp add: upper_letters type_letters emptyRun_def pieceOfChar_def split: option.split)
next
  case 5
  then show ?thesis
    by (intro exI[of _ King]) (simp add: upper_letters type_letters emptyRun_def pieceOfChar_def split: option.split)
qed

lemma letter_lower:
  assumes "s \<in> pieceLetters"
  shows "\<exists>t. t \<noteq> Pawn \<and> typeLetter t = s \<and> CHR ''/'' \<notin> set (toLowerCase s) \<and>
             CHR '' '' \<notin> set (toLowerCase s) \<and>
             (\<forall>rest. fenSquares (toLowerCase s @ rest) =
                map_option ((#) (Some \<lparr>etype = t, ecolor = EngineB\<rparr>)) (fenSquares rest))"
  using assms
proof (cases rule: letter_cases)
  case 1
  then show ?thesis
    by (intro exI[of _ Rook]) (simp add: lower_letters type_letters emptyRun_def pieceOfChar_def split: option.split)
next
  case 2
  then show ?thesis
    by (intro exI[of _ Knight]) (simp add: lower_letters type_letters emptyRun_def pieceOfChar_def split: option.split)
next
  case 3
  then show ?thesis
    by (intro exI[of _ Bishop]) (simp add: lower_letters type_letters emptyRun_def pieceOfChar_def split: option.split)
next
  case 4
  then show ?thesis
    by (intro exI[of _ Queen]) (simp add: lower_letters type_letters emptyRun_def pieceOfChar_def split: option.split)
next
  case 5
  then show ?thesis
    by (intro exI[of _ King]) (simp add: lower_letters type_letters emptyRun_def pieceOfChar_def split: option.split)
qed

lemma toUpperCase_append: "toUpperCase (a @ b) = toUpperCase a @ toUpperCase b"
  by (simp add: toUpperCase_def)

lemma toLowerCase_append: "toLowerCase (a @ b) = toLowerCase a @ toLowerCase b"
  by (simp add: toLowerCase_def)

lemma upper_rank:
  "set ps \<subseteq> pieceLetters \<Longrightarrow>
   toUpperCase (concat ps) = concat ps \<and>
   CHR ''/'' \<notin> set (concat ps) \<and> CHR '' '' \<notin> set (concat ps) \<and>
   (\<exists>row. fenSquares (concat ps) = Some row \<and> length row = length ps \<and>
          rankLetters row = ps \<and> rankColors row = replicate (length ps) (Some EngineW) \<and>
          filter isPawn row = [])"
proof (induction ps)
  case Nil
  then show ?case by (simp add: toUpperCase_def rankLetters_def rankColors_def)
next
  case (Cons s ps)
  then have s: "s \<in> pieceLetters" and ps: "set ps \<subseteq> pieceLetters" by simp_all
  from letter_upper[OF s] obtain t where t: "toUpperCase s = s" "t \<noteq> Pawn" "typeLetter t = s"
      "\<And>rest. fenSquares (s @ rest) =
                map_option ((#) (Some \<lparr>etype = t, ecolor = EngineW\<rparr>)) (fenSquares rest)"
    by blast
  from Cons.IH[OF ps] obtain row where row: "toUpperCase (concat ps) = concat ps"
      "CHR ''/'' \<notin> set (concat ps)" "CHR '' '' \<notin> set (concat ps)"
      "fenSquares (concat ps) = Some row" "length row = length ps"
      "rankLetters row = ps" "rankColors row = replicate (length ps) (Some EngineW)"
      "filter isPawn row = []"
    by blast
  have nosep: "CHR ''/'' \<notin> set s \<and> CHR '' '' \<notin> set s"
    using s by (cases rule: letter_cases) simp_all
  have "fenSquares (concat (s # ps)) = Some (Some \<lparr>etype = t, ecolor = EngineW\<rparr> # row)"
    using t(4)[of "concat ps"] row(4) by simp
  moreover have "rankLetters (Some \<lparr>etype = t, ecolor = EngineW\<rparr> # row) = s # ps"
    using t(3) row(6) by (simp add: rankLetters_def)
  moreover have "rankColors (Some \<lparr>etype = t, ecolor = EngineW\<rparr> # row)
                   = replicate (length (s # ps)) (Some EngineW)"
    using row(7) by (simp add: rankColors_def)
  moreover have "filter isPawn (Some \<lparr>etype = t, ecolor = EngineW\<rparr> # row) = []"
    using t(2) row(8) by (simp add: isPawn_def)
  ultimately show ?case
    using t(1) row(1,2,3,5) nosep by (simp add: toUpperCase_append)
qed

lemma lower_rank:
  "set ps \<subseteq> pieceLetters \<Longrightarrow>
   CHR ''/'' \<notin> set (toLowerCase (concat ps)) \<and> CHR '' '' \<notin> set (toLowerCase (concat ps)) \<and>
   (\<exists>row. fenSquares (toLowerCase (concat ps)) = Some row \<and> length row = length ps \<and>
          rankLetters row = ps \<and> rankColors row = replicate (length ps) (Some EngineB) \<and>
          filter isPawn row = [])"
proof (induction ps)
  case Nil
  then show ?case by (simp add: toLowerCase_def rankLetters_def rankColors_def)
next
  case (Cons s ps)
  then have s: "s \<in> pieceLetters" and ps: "set ps \<subseteq> pieceLetters" by simp_all
  from letter_lower[OF s] obtain t where t: "t \<noteq> Pawn" "typeLetter t = s"
      "CHR ''/'' \<notin> set (toLowerCase s)" "CHR '' '' \<notin> set (toLowerCase s)"
      "\<And>rest. fenSquares (toLowerCase s @ rest) =
                map_option ((#) (Some \<lparr>etype = t, ecolor = EngineB\<rparr>)) (fenSquares rest)"
    by blast
  from Cons.IH[OF ps] obtain row where row:
      "CHR ''/'' \<notin> set (toLowerCase (concat ps))" "CHR '' '' \<notin> set (toLowerCase (concat ps))"
      "fenSquares (toLowerCase (concat ps)) = Some row" "length row = length ps"
      "rankLetters row = ps" "rankColors row = replicate (length ps) (Some EngineB)"
      "filter isPawn row = []"
    by blast
  have "fenSquares (toLowerCase (concat (s # ps))) = Some (Some \<lparr>etype = t, ecolor = EngineB\<rparr> # row)"
    using t(5)[of "toLowerCase (concat ps)"] row(3) by (simp add: toLowerCase_append)
  moreover have "rankLetters (Some \<lparr>etype = t, ecolor = EngineB\<rparr> # row) = s # ps"
    using t(2) row(5) by (simp add: rankLetters_def)
  moreover have "rankColors (Some \<lparr>etype = t, ecolor = EngineB\<rparr> # row)
                   = replicate (length (s # ps)) (Some EngineB)"
    using row(6) by (simp add: rankColors_def)
  moreover have "filter isPawn (Some \<lparr>etype = t, ecolor = EngineB\<rparr> # row) = []"
    using t(1) row(7) by (simp add: isPawn_def)
  ultimately show ?case
    using t(3,4) row(1,2,4) by (simp add: toLowerCase_append)
qed

lemma split_fields:
  assumes "CHR '' '' \<notin> set x"
  shows "splitOn (CHR '' '') (x @ '' w KQkq - 0 1'') = [x, ''w'', ''KQkq'', ''-'', ''0'', ''1'']"
proof -
  have "splitOn (CHR '' '') (x @ CHR '' '' # ''w KQkq - 0 1'') = x # splitOn (CHR '' '') ''w KQkq - 0 1''"
    using assms by (rule splitOn_append)
  moreover have "splitOn (CHR '' '') ''w KQkq - 0 1'' = [''w'', ''KQkq'', ''-'', ''0'', ''1'']"
    by simp
  ultimately show ?thesis by simp
qed

lemma split_ranks:
  assumes "CHR ''/'' \<notin> set lo" "CHR ''/'' \<notin> set up"
  shows "splitOn (CHR ''/'') (lo @ ''/pppppppp/8/8/8/8/PPPPPPPP/'' @ up) =
           [lo, ''pppppppp'', ''8'', ''8'', ''8'', ''8'', ''PPPPPPPP'', up]"
proof -
  have 1: "splitOn (CHR ''/'') (lo @ CHR ''/'' # (''pppppppp/8/8/8/8/PPPPPPPP/'' @ up)) =
             lo # splitOn (CHR ''/'') (''pppppppp/8/8/8/8/PPPPPPPP/'' @ up)"
    using assms(1) by (rule splitOn_append)
  have 2: "splitOn (CHR ''/'') (''pppppppp'' @ CHR ''/'' # (''8/8/8/8/PPPPPPPP/'' @ up)) =
             ''pppppppp'' # splitOn (CHR ''/'') (''8/8/8/8/PPPPPPPP/'' @ up)"
    by (rule splitOn_append) simp
  have 3: "splitOn (CHR ''/'') (''PPPPPPPP'' @ CHR ''/'' # up) = ''PPPPPPPP'' # splitOn (CHR ''/'') up"
    by (rule splitOn_append) simp
  have 4: "splitOn (CHR ''/'') up = [up]"
    using assms(2) by (rule splitOn_no_sep)
  have 5: "splitOn (CHR ''/'') (''8/8/8/8/PPPPPPPP/'' @ up) =
             [''8'', ''8'', ''8'', ''8''] @ splitOn (CHR ''/'') (''PPPPPPPP'' @ CHR ''/'' # up)"
    by (simp split: list.split)
  show ?thesis using 1 2 3 4 5 by simp
qed

lemma fixed_ranks:
  "fenRank ''pppppppp'' = Some (replicate 8 (Some \<lparr>etype = Pawn, ecolor = EngineB\<rparr>))"
  "fenRank ''PPPPPPPP'' = Some (replicate 8 (Some \<lparr>etype = Pawn, ecolor = EngineW\<rparr>))"
  "fenRank ''8'' = Some (replicate 8 None)"
  by code_simp+

lemma readFEN_start:
  assumes "CHR ''/'' \<notin> set lo" "CHR '' '' \<notin> set lo" "CHR ''/'' \<notin> set up" "CHR '' '' \<notin> set up"
    and "fenSquares lo = Some r8" "length r8 = 8" "fenSquares up = Some r1" "length r1 = 8"
  shows "readFEN (lo @ ''/pppppppp/8/8/8/8/PPPPPPPP/'' @ up @ '' w KQkq - 0 1'') =
           Some \<lparr>placement =
                   [r8, replicate 8 (Some \<lparr>etype = Pawn, ecolor = EngineB\<rparr>),
                    replicate 8 None, replicate 8 None, replicate 8 None, replicate 8 None,
                    replicate 8 (Some \<lparr>etype = Pawn, ecolor = EngineW\<rparr>), r1],
                 sideToMove = ''w'', castling = ''KQkq'', enPassant = ''-'',
                 halfmoves = ''0'', fullmoves = ''1''\<rparr>"
proof -
  let ?x = "lo @ ''/pppppppp/8/8/8/8/PPPPPPPP/'' @ up"
  have nosp: "CHR '' '' \<notin> set ?x" using assms(2,4) by simp
  have f: "splitOn (CHR '' '') (?x @ '' w KQkq - 0 1'') = [?x, ''w'', ''KQkq'', ''-'', ''0'', ''1'']"
    using nosp by (rule split_fields)
  have r: "splitOn (CHR ''/'') ?x = [lo, ''pppppppp'', ''8'', ''8'', ''8'', ''8'', ''PPPPPPPP'', up]"
    using assms(1,3) by (rule split_ranks)
  have lo: "fenRank lo = Some r8" using assms(5,6) by (simp add: fenRank_def)
  have up: "fenRank up = Some r1" using assms(7,8) by (simp add: fenRank_def)
  have p: "fenPlacement ?x =
             Some [r8, replicate 8 (Some \<lparr>etype = Pawn, ecolor = EngineB\<rparr>),
                   replicate 8 None, replicate 8 None, replicate 8 None, replicate 8 None,
                   replicate 8 (Some \<lparr>etype = Pawn, ecolor = EngineW\<rparr>), r1]"
    unfolding fenPlacement_def r by (simp add: lo up fixed_ranks)
  have "readFEN (?x @ '' w KQkq - 0 1'') =
           Some \<lparr>placement =
                   [r8, replicate 8 (Some \<lparr>etype = Pawn, ecolor = EngineB\<rparr>),
                    replicate 8 None, replicate 8 None, replicate 8 None, replicate 8 None,
                    replicate 8 (Some \<lparr>etype = Pawn, ecolor = EngineW\<rparr>), r1],
                 sideToMove = ''w'', castling = ''KQkq'', enPassant = ''-'',
                 halfmoves = ''0'', fullmoves = ''1''\<rparr>"
    unfolding readFEN_def f using p by simp
  then show ?thesis by simp
qed

text \<open>
  Claim C7. For eight back-rank letters (each one of R, N, B, Q, K), the FEN built by
  \<open>backRankToFEN\<close> is the lower-case copy of the letters, the fixed middle part and the
  letters themselves; read back, it has the same eight pieces on rank 8 (black) and on
  rank 1 (white), eight black pawns on rank 7 and eight white pawns on rank 2 and no other
  pawn (16 in all), empty ranks 3 to 6, white to move, castling rights KQkq and the
  counters 0 and 1; the letters of rank 1 are the input.
\<close>

theorem backRankToFEN_roundtrip:
  assumes "length pieces = 8" and "set pieces \<subseteq> pieceLetters"
  shows "\<exists>r8 r1.
           backRankToFEN pieces =
             toLowerCase (concat pieces) @ ''/pppppppp/8/8/8/8/PPPPPPPP/'' @ concat pieces @
             '' w KQkq - 0 1'' \<and>
           readFEN (backRankToFEN pieces) =
             Some \<lparr>placement =
                     [r8, replicate 8 (Some \<lparr>etype = Pawn, ecolor = EngineB\<rparr>),
                      replicate 8 None, replicate 8 None, replicate 8 None, replicate 8 None,
                      replicate 8 (Some \<lparr>etype = Pawn, ecolor = EngineW\<rparr>), r1],
                   sideToMove = ''w'', castling = ''KQkq'', enPassant = ''-'',
                   halfmoves = ''0'', fullmoves = ''1''\<rparr> \<and>
           rankLetters r8 = pieces \<and> rankColors r8 = replicate 8 (Some EngineB) \<and>
           rankLetters r1 = pieces \<and> rankColors r1 = replicate 8 (Some EngineW) \<and>
           filter isPawn r8 = [] \<and> filter isPawn r1 = [] \<and>
           length (filter isPawn (concat
             [r8, replicate 8 (Some \<lparr>etype = Pawn, ecolor = EngineB\<rparr>),
              replicate 8 None, replicate 8 None, replicate 8 None, replicate 8 None,
              replicate 8 (Some \<lparr>etype = Pawn, ecolor = EngineW\<rparr>), r1])) = 16"
proof -
  from upper_rank[OF assms(2)] assms(1) obtain r1 where up:
      "toUpperCase (concat pieces) = concat pieces"
      "CHR ''/'' \<notin> set (concat pieces)" "CHR '' '' \<notin> set (concat pieces)"
      "fenSquares (concat pieces) = Some r1" "length r1 = 8"
      "rankLetters r1 = pieces" "rankColors r1 = replicate 8 (Some EngineW)" "filter isPawn r1 = []"
    by auto
  from lower_rank[OF assms(2)] assms(1) obtain r8 where lo:
      "CHR ''/'' \<notin> set (toLowerCase (concat pieces))" "CHR '' '' \<notin> set (toLowerCase (concat pieces))"
      "fenSquares (toLowerCase (concat pieces)) = Some r8" "length r8 = 8"
      "rankLetters r8 = pieces" "rankColors r8 = replicate 8 (Some EngineB)" "filter isPawn r8 = []"
    by auto
  have fen_text: "backRankToFEN pieces =
          toLowerCase (concat pieces) @ ''/pppppppp/8/8/8/8/PPPPPPPP/'' @ concat pieces @ '' w KQkq - 0 1''"
    by (simp add: backRankToFEN_def Let_def up(1))
  have pawns: "length (filter isPawn (concat
             [r8, replicate 8 (Some \<lparr>etype = Pawn, ecolor = EngineB\<rparr>),
              replicate 8 None, replicate 8 None, replicate 8 None, replicate 8 None,
              replicate 8 (Some \<lparr>etype = Pawn, ecolor = EngineW\<rparr>), r1])) = 16"
    using lo(7) up(8) by (simp add: isPawn_def)
  from fen_text have "readFEN (backRankToFEN pieces) =
           Some \<lparr>placement =
                   [r8, replicate 8 (Some \<lparr>etype = Pawn, ecolor = EngineB\<rparr>),
                    replicate 8 None, replicate 8 None, replicate 8 None, replicate 8 None,
                    replicate 8 (Some \<lparr>etype = Pawn, ecolor = EngineW\<rparr>), r1],
                 sideToMove = ''w'', castling = ''KQkq'', enPassant = ''-'',
                 halfmoves = ''0'', fullmoves = ''1''\<rparr>"
    using readFEN_start[OF lo(1,2) up(2,3) lo(3,4) up(4,5)] by simp
  then show ?thesis using fen_text pawns lo(5,6,7) up(6,7,8) by blast
qed

theorem backRankToFEN_roundtrip_witness:
  "\<exists>r8 r1.
           backRankToFEN [''R'', ''N'', ''B'', ''Q'', ''K'', ''B'', ''N'', ''R''] =
             toLowerCase (concat [''R'', ''N'', ''B'', ''Q'', ''K'', ''B'', ''N'', ''R'']) @
             ''/pppppppp/8/8/8/8/PPPPPPPP/'' @
             concat [''R'', ''N'', ''B'', ''Q'', ''K'', ''B'', ''N'', ''R''] @ '' w KQkq - 0 1'' \<and>
           readFEN (backRankToFEN [''R'', ''N'', ''B'', ''Q'', ''K'', ''B'', ''N'', ''R'']) =
             Some \<lparr>placement =
                     [r8, replicate 8 (Some \<lparr>etype = Pawn, ecolor = EngineB\<rparr>),
                      replicate 8 None, replicate 8 None, replicate 8 None, replicate 8 None,
                      replicate 8 (Some \<lparr>etype = Pawn, ecolor = EngineW\<rparr>), r1],
                   sideToMove = ''w'', castling = ''KQkq'', enPassant = ''-'',
                   halfmoves = ''0'', fullmoves = ''1''\<rparr> \<and>
           rankLetters r8 = [''R'', ''N'', ''B'', ''Q'', ''K'', ''B'', ''N'', ''R''] \<and>
           rankColors r8 = replicate 8 (Some EngineB) \<and>
           rankLetters r1 = [''R'', ''N'', ''B'', ''Q'', ''K'', ''B'', ''N'', ''R''] \<and>
           rankColors r1 = replicate 8 (Some EngineW) \<and>
           filter isPawn r8 = [] \<and> filter isPawn r1 = [] \<and>
           length (filter isPawn (concat
             [r8, replicate 8 (Some \<lparr>etype = Pawn, ecolor = EngineB\<rparr>),
              replicate 8 None, replicate 8 None, replicate 8 None, replicate 8 None,
              replicate 8 (Some \<lparr>etype = Pawn, ecolor = EngineW\<rparr>), r1])) = 16"
proof -
  have len: "length [''R'', ''N'', ''B'', ''Q'', ''K'', ''B'', ''N'', ''R''] = 8"
    by simp
  have letters: "set [''R'', ''N'', ''B'', ''Q'', ''K'', ''B'', ''N'', ''R''] \<subseteq> pieceLetters"
    by (simp add: pieceLetters_def ROOK_def KNIGHT_def BISHOP_def QUEEN_def KING_def)
  show ?thesis by (rule backRankToFEN_roundtrip[OF len letters])
qed

section \<open>The board diff\<close>

text \<open>
  When the two boards differ on one square only, or on the two squares of one move, the
  diff is what the loop does on the square that was left. It finds the destination of a
  move when no other piece of the same colour and type stands on a square that the scan
  reaches first, and it records a capture when no such piece stands anywhere else.
\<close>

lemma foldl_unchanged:
  "(\<And>y d. y \<in> set xs \<Longrightarrow> f d y = d) \<Longrightarrow> foldl f d xs = d"
  by (induction xs arbitrary: d) simp_all

lemma foldl_only:
  assumes "distinct xs" and "x \<in> set xs"
    and "\<And>y d. y \<in> set xs \<Longrightarrow> y \<noteq> x \<Longrightarrow> f d y = d"
  shows "foldl f d xs = f d x"
  using assms
proof (induction xs arbitrary: d)
  case Nil
  then show ?case by simp
next
  case (Cons a xs)
  show ?case
  proof (cases "a = x")
    case True
    then have "\<And>y d. y \<in> set xs \<Longrightarrow> f d y = d"
      using Cons.prems(1,3) by auto
    then have "foldl f (f d x) xs = f d x" by (rule foldl_unchanged)
    with True show ?thesis by simp
  next
    case False
    then have "f d a = d" using Cons.prems(3) by simp
    moreover have "foldl f d xs = f d x"
      using Cons.IH Cons.prems False by auto
    ultimately show ?thesis by simp
  qed
qed

lemma find_first_sorted:
  assumes "sorted_wrt R xs" and "x \<in> set xs" and "P x"
    and "\<And>y. y \<in> set xs \<Longrightarrow> R y x \<Longrightarrow> \<not> P y"
  shows "find P xs = Some x"
  using assms
proof (induction xs)
  case Nil
  then show ?case by simp
next
  case (Cons a xs)
  show ?case
  proof (cases "a = x")
    case True
    with Cons.prems(3) show ?thesis by simp
  next
    case False
    then have "x \<in> set xs" using Cons.prems(2) by simp
    then have "R a x" using Cons.prems(1) by simp
    then have "\<not> P a" using Cons.prems(4)[of a] by simp
    moreover have "find P xs = Some x"
      using Cons.IH Cons.prems \<open>x \<in> set xs\<close> by simp
    ultimately show ?thesis by simp
  qed
qed

lemma scanOrder_sorted: "sorted_wrt scansBefore scanOrder"
  by code_simp

lemma scanOrder_distinct: "distinct scanOrder"
  by (simp add: scanOrder_def distinct_product)

lemma scanOrder_set: "(r, f) \<in> set scanOrder \<longleftrightarrow> r < 8 \<and> f < 8"
  by (simp add: scanOrder_def)

lemma rankFileToSquare_inj:
  assumes "r < 8" "f < 8" "r' < 8" "f' < 8"
    and "rankFileToSquare r f = rankFileToSquare r' f'"
  shows "r = r' \<and> f = f'"
proof -
  have d1: "distinct ''abcdefgh''" and d2: "distinct ''87654321''" by simp_all
  from assms have "''abcdefgh'' ! f = ''abcdefgh'' ! f'" and "''87654321'' ! r = ''87654321'' ! r'"
    by (simp_all add: rankFileToSquare_def)
  then show ?thesis
    using assms(1-4) nth_eq_iff_index_eq[OF d1, of f f'] nth_eq_iff_index_eq[OF d2, of r r']
    by simp
qed
lemma diffSquare_same:
  assumes "pieceAt old r f = None \<or> pieceAt new r f = pieceAt old r f"
  shows "diffSquare old new d (r, f) = d"
  using assms by (auto simp: diffSquare_def Let_def split: option.splits)

lemma diff_single_move:
  assumes A: "ra < 8" "fa < 8" and B: "rb < 8" "fb < 8"
    and oldA: "pieceAt old ra fa = Some p" and newA: "pieceAt new ra fa = None"
    and oldB: "pieceAt old rb fb = None" and newB: "pieceAt new rb fb = Some p"
    and same: "\<And>r f. r < 8 \<Longrightarrow> f < 8 \<Longrightarrow> (r, f) \<noteq> (ra, fa) \<Longrightarrow> (r, f) \<noteq> (rb, fb) \<Longrightarrow>
                     pieceAt new r f = pieceAt old r f"
    and first: "\<And>r f q. r < 8 \<Longrightarrow> f < 8 \<Longrightarrow> scansBefore (r, f) (rb, fb) \<Longrightarrow>
                     pieceAt new r f = Some q \<Longrightarrow> color q \<noteq> color p \<or> ptype q \<noteq> ptype p"
  shows "detectAndAnimateMoves old new =
           \<lparr>animating =
              [(animKey (rankFileToSquare rb fb) p,
                \<lparr>fromSquare = rankFileToSquare ra fa, toSquare = rankFileToSquare rb fb,
                   animPiece = p\<rparr>)],
            captured = [], piecesMovedFrom = [rankFileToSquare ra fa]\<rparr>"
proof -
  let ?init = "\<lparr>animating = [], captured = [], piecesMovedFrom = []\<rparr>"
  have neAB: "(ra, fa) \<noteq> (rb, fb)" using oldA oldB by auto
  have others: "diffSquare old new d y = d" if "y \<in> set scanOrder" "y \<noteq> (ra, fa)" for y d
  proof -
    obtain r f where y: "y = (r, f)" by (cases y)
    with that have rf: "r < 8" "f < 8" by (simp_all add: scanOrder_set)
    show ?thesis
    proof (cases "(r, f) = (rb, fb)")
      case True
      then show ?thesis using oldB y diffSquare_same[of old rb fb new d] by simp
    next
      case False
      then have "pieceAt new r f = pieceAt old r f" using same rf that(2) y by simp
      then show ?thesis using y diffSquare_same[of old r f new d] by simp
    qed
  qed
  have fold: "detectAndAnimateMoves old new = diffSquare old new ?init (ra, fa)"
    unfolding detectAndAnimateMoves_def
    using scanOrder_distinct _ others
    by (rule foldl_only) (simp add: scanOrder_set A)
  let ?P = "\<lambda>(newRank, newFile).
              case pieceAt new newRank newFile of
                None \<Rightarrow> False
              | Some testPiece \<Rightarrow>
                  color testPiece = color p \<and> ptype testPiece = ptype p \<and>
                  rankFileToSquare newRank newFile \<noteq> rankFileToSquare ra fa"
  have sqne: "rankFileToSquare rb fb \<noteq> rankFileToSquare ra fa"
    using rankFileToSquare_inj[OF B A] neAB by auto
  have "find ?P scanOrder = Some (rb, fb)"
  proof (rule find_first_sorted[OF scanOrder_sorted])
    show "(rb, fb) \<in> set scanOrder" by (simp add: scanOrder_set B)
    show "?P (rb, fb)" using newB sqne by simp
  next
    fix y assume y: "y \<in> set scanOrder" "scansBefore y (rb, fb)"
    obtain r f where rf: "y = (r, f)" by (cases y)
    with y have "r < 8" "f < 8" by (simp_all add: scanOrder_set)
    then show "\<not> ?P y"
      using first[of r f] y(2) rf by (auto split: option.splits)
  qed
  then have moved: "findMoved new p (rankFileToSquare ra fa) = Some (rankFileToSquare rb fb)"
    by (simp add: findMoved_def)
  show ?thesis
    unfolding fold using oldA newA moved by (simp add: diffSquare_def Let_def)
qed

lemma diff_single_removal:
  assumes A: "ra < 8" "fa < 8"
    and oldA: "pieceAt old ra fa = Some p" and newA: "pieceAt new ra fa = None"
    and same: "\<And>r f. r < 8 \<Longrightarrow> f < 8 \<Longrightarrow> (r, f) \<noteq> (ra, fa) \<Longrightarrow>
                     pieceAt new r f = pieceAt old r f"
    and alone: "\<And>r f q. r < 8 \<Longrightarrow> f < 8 \<Longrightarrow> pieceAt new r f = Some q \<Longrightarrow>
                     color q \<noteq> color p \<or> ptype q \<noteq> ptype p"
  shows "detectAndAnimateMoves old new =
           \<lparr>animating = [],
            captured = [(rankFileToSquare ra fa,
                         \<lparr>capSquare = rankFileToSquare ra fa, capPiece = p\<rparr>)],
            piecesMovedFrom = []\<rparr>"
proof -
  let ?init = "\<lparr>animating = [], captured = [], piecesMovedFrom = []\<rparr>"
  have others: "diffSquare old new d y = d" if "y \<in> set scanOrder" "y \<noteq> (ra, fa)" for y d
  proof -
    obtain r f where y: "y = (r, f)" by (cases y)
    with that have rf: "r < 8" "f < 8" by (simp_all add: scanOrder_set)
    then have "pieceAt new r f = pieceAt old r f" using same that(2) y by simp
    then show ?thesis using y diffSquare_same[of old r f new d] by simp
  qed
  have fold: "detectAndAnimateMoves old new = diffSquare old new ?init (ra, fa)"
    unfolding detectAndAnimateMoves_def
    using scanOrder_distinct _ others
    by (rule foldl_only) (simp add: scanOrder_set A)
  let ?P = "\<lambda>(newRank, newFile).
              case pieceAt new newRank newFile of
                None \<Rightarrow> False
              | Some testPiece \<Rightarrow>
                  color testPiece = color p \<and> ptype testPiece = ptype p \<and>
                  rankFileToSquare newRank newFile \<noteq> rankFileToSquare ra fa"
  have "\<not> ?P y" if "y \<in> set scanOrder" for y
  proof -
    obtain r f where rf: "y = (r, f)" by (cases y)
    with that have "r < 8" "f < 8" by (simp_all add: scanOrder_set)
    then show ?thesis using alone[of r f] rf by (auto split: option.splits)
  qed
  then have "find ?P scanOrder = None" unfolding find_None_iff by blast
  then have gone: "findMoved new p (rankFileToSquare ra fa) = None"
    by (simp add: findMoved_def)
  show ?thesis
    unfolding fold using oldA newA gone by (simp add: diffSquare_def Let_def)
qed

subsection \<open>The diff on ordinary moves\<close>

text \<open>
  For White's first move 1. e4 the diff finds the pawn's new square: the destination lies
  on an earlier rank of the scan than the pawns that stayed.
\<close>

lemma diff_move_e2e4:
  "detectAndAnimateMoves (boardOf DEFAULT_POSITION) (boardOf FEN_AFTER_E4) =
     \<lparr>animating =
        [(''e4-white-p'',
          \<lparr>fromSquare = ''e2'', toSquare = ''e4'', animPiece = \<lparr>ptype = Pawn, color = White\<rparr>\<rparr>)],
      captured = [], piecesMovedFrom = [''e2'']\<rparr>"
  by code_simp

text \<open>
  Claim C5 says that two boards which differ only by one piece having moved from A to B
  give exactly one move animation, keyed at B with source A, and no capture entry. After
  1. e4 e5 the boards differ only on e7 and e5, but the search for the pawn that left e7
  stops at the first black pawn of the new board in scan order other than e7, the pawn
  that stands on a7 in both boards: the single animation is keyed \<open>a7-black-p\<close> and
  runs from e7 to a7.
\<close>

theorem diff_move_e7e5:
  "filter (\<lambda>(r, f). pieceAt (boardOf FEN_AFTER_E4) r f \<noteq> pieceAt (boardOf FEN_AFTER_E4_E5) r f)
          scanOrder = [(1, 4), (3, 4)] \<and>
   pieceAt (boardOf FEN_AFTER_E4) 1 4 = Some \<lparr>ptype = Pawn, color = Black\<rparr> \<and>
   pieceAt (boardOf FEN_AFTER_E4_E5) 1 4 = None \<and>
   pieceAt (boardOf FEN_AFTER_E4) 3 4 = None \<and>
   pieceAt (boardOf FEN_AFTER_E4_E5) 3 4 = Some \<lparr>ptype = Pawn, color = Black\<rparr> \<and>
   rankFileToSquare 1 4 = ''e7'' \<and> rankFileToSquare 3 4 = ''e5'' \<and>
   detectAndAnimateMoves (boardOf FEN_AFTER_E4) (boardOf FEN_AFTER_E4_E5) =
     \<lparr>animating =
        [(''a7-black-p'',
          \<lparr>fromSquare = ''e7'', toSquare = ''a7'', animPiece = \<lparr>ptype = Pawn, color = Black\<rparr>\<rparr>)],
      captured = [], piecesMovedFrom = [''e7'']\<rparr>"
  by code_simp

text \<open>
  Claim C4 says that when the piece on A disappears and no piece of its colour and type
  appears at a new square, exactly one capture entry is recorded, keyed at A, and no move
  animation starts at A. After 1. e4 d5 2. exd5 the black pawn of d5 is gone and no black
  pawn stands on a square where none stood before; the search still finds the black pawn
  on a7, so the diff records a move animation from d5 to a7 and no capture entry at all.
\<close>

theorem diff_capture_exd5:
  "pieceAt (boardOf FEN_AFTER_E4_D5) 3 3 = Some \<lparr>ptype = Pawn, color = Black\<rparr> \<and>
   pieceAt (boardOf FEN_AFTER_EXD5) 3 3 = Some \<lparr>ptype = Pawn, color = White\<rparr> \<and>
   filter (\<lambda>(r, f). pieceAt (boardOf FEN_AFTER_EXD5) r f = Some \<lparr>ptype = Pawn, color = Black\<rparr> \<and>
                     pieceAt (boardOf FEN_AFTER_E4_D5) r f \<noteq> Some \<lparr>ptype = Pawn, color = Black\<rparr>)
          scanOrder = [] \<and>
   rankFileToSquare 3 3 = ''d5'' \<and>
   detectAndAnimateMoves (boardOf FEN_AFTER_E4_D5) (boardOf FEN_AFTER_EXD5) =
     \<lparr>animating =
        [(''a7-black-p'',
          \<lparr>fromSquare = ''d5'', toSquare = ''a7'', animPiece = \<lparr>ptype = Pawn, color = Black\<rparr>\<rparr>),
         (''d5-white-p'',
          \<lparr>fromSquare = ''e4'', toSquare = ''d5'', animPiece = \<lparr>ptype = Pawn, color = White\<rparr>\<rparr>)],
      captured = [], piecesMovedFrom = [''d5'', ''e4'']\<rparr>"
  by code_simp

section \<open>The state that move callbacks depend on\<close>

text \<open>
  Each handler acts on the part of the state selected by \<open>moveCore\<close> without looking
  at the rest: the premove queue and the arrow cells never reach a call of \<open>onMove\<close>.
\<close>

lemma playSound_fields [simp]:
  "onMoveCalls (playSound props t s) = onMoveCalls s"
  "premoves (playSound props t s) = premoves s"
  "moveCore (playSound props t s) = playSound props t (moveCore s)"
  by (simp_all add: playSound_def moveCore_def)

lemma moveSound_fields [simp]:
  "onMoveCalls (moveSound eng props a b c d e s) = onMoveCalls s"
  "premoves (moveSound eng props a b c d e s) = premoves s"
  by (simp_all add: moveSound_def split: option.splits)

lemma moveSound_core:
  "moveCore (moveSound eng props a b c d e s) = moveSound eng props a b c d e (moveCore s)"
proof -
  have "chess (moveCore s) = chess s" by (simp add: moveCore_def)
  then show ?thesis by (simp add: moveSound_def split: option.splits)
qed

lemma setInternal_fields [simp]:
  "onMoveCalls (setInternalSelectedSquare props v s) = onMoveCalls s"
  "premoves (setInternalSelectedSquare props v s) = premoves s"
  "moveCore (setInternalSelectedSquare props v s) = setInternalSelectedSquare props v (moveCore s)"
  by (simp_all add: setInternalSelectedSquare_def moveCore_def)

lemma callOnMove_fields [simp]:
  "onMoveCalls (callOnMove a b p s) = onMoveCalls s @ [(a, b, p)]"
  "premoves (callOnMove a b p s) = premoves s"
  "moveCore (callOnMove a b p s) = callOnMove a b p (moveCore s)"
  by (simp_all add: callOnMove_def moveCore_def)

lemma moveCore_reads [simp]:
  "chess (moveCore s) = chess s"
  "boardState (moveCore s) = boardState s"
  "previousBoardState (moveCore s) = previousBoardState s"
  "internalSelectedSquare (moveCore s) = internalSelectedSquare s"
  "draggedPiece (moveCore s) = draggedPiece s"
  "keyboardInput (moveCore s) = keyboardInput s"
  "isPlayerTurn (moveCore s) = isPlayerTurn s"
  "isPlayerTurnDeps (moveCore s) = isPlayerTurnDeps s"
  "calculatedLegalMoves (moveCore s) = calculatedLegalMoves s"
  "calculatedLegalMovesDeps (moveCore s) = calculatedLegalMovesDeps s"
  "onMoveCalls (moveCore s) = onMoveCalls s"
  "consoleErrors (moveCore s) = consoleErrors s"
  "selectedSquare props (moveCore s) = selectedSquare props s"
  "effectiveLegalMoves props (moveCore s) = effectiveLegalMoves props s"
  "moveCore (moveCore s) = moveCore s"
  by (simp_all add: moveCore_def selectedSquare_def effectiveLegalMoves_def split: option.splits)

lemma clickToMove_core:
  "moveCore (clickToMove eng props rank file s) = clickToMove eng props rank file (moveCore s)"
  by (simp add: clickToMove_def Let_def moveSound_core split: option.splits prod.splits)

lemma moveCore_ignores [simp]:
  "moveCore (s\<lparr>premoves := a\<rparr>) = moveCore s"
  "moveCore (s\<lparr>dragOverSquare := b\<rparr>) = moveCore s"
  "moveCore (s\<lparr>rightClickedSquares := c\<rparr>) = moveCore s"
  "moveCore (s\<lparr>arrowStart := d\<rparr>) = moveCore s"
  "moveCore (s\<lparr>isDrawingArrow := e\<rparr>) = moveCore s"
  "moveCore (s\<lparr>arrowValidMoves := f\<rparr>) = moveCore s"
  "moveCore (s\<lparr>arrowValidMovesDeps := g\<rparr>) = moveCore s"
  "moveCore (s\<lparr>onArrowsChangeCalls := h\<rparr>) = moveCore s"
  by (simp_all add: moveCore_def)

lemma handleSquareClick_core:
  "moveCore (handleSquareClick eng props rank file s) =
   moveCore (handleSquareClick eng props rank file (moveCore s))"
  by (simp add: handleSquareClick_def Let_def clickToMove_core split: option.splits)


lemma handleTouchStart_core:
  "moveCore (handleTouchStart eng props ig rank file s) =
   moveCore (handleTouchStart eng props ig rank file (moveCore s))"
  by (simp add: handleTouchStart_def handleSquareClick_core[symmetric])

lemma moveCore_upd:
  "moveCore (s\<lparr>draggedPiece := a\<rparr>) = (moveCore s)\<lparr>draggedPiece := a\<rparr>"
  "moveCore (s\<lparr>consoleErrors := b\<rparr>) = (moveCore s)\<lparr>consoleErrors := b\<rparr>"
  "moveCore (s\<lparr>pendingPromotion := c\<rparr>) = (moveCore s)\<lparr>pendingPromotion := c\<rparr>"
  "moveCore (s\<lparr>showPromotionDialog := d\<rparr>) = (moveCore s)\<lparr>showPromotionDialog := d\<rparr>"
  "moveCore (s\<lparr>keyboardInput := e\<rparr>) = (moveCore s)\<lparr>keyboardInput := e\<rparr>"
  "moveCore (s\<lparr>onKeyboardInputCalls := f\<rparr>) = (moveCore s)\<lparr>onKeyboardInputCalls := f\<rparr>"
  "moveCore (s\<lparr>chess := g\<rparr>) = (moveCore s)\<lparr>chess := g\<rparr>"
  "moveCore (s\<lparr>animatingPieces := h\<rparr>) = (moveCore s)\<lparr>animatingPieces := h\<rparr>"
  "moveCore (s\<lparr>capturedPieces := i\<rparr>) = (moveCore s)\<lparr>capturedPieces := i\<rparr>"
  "moveCore (s\<lparr>isPlayerTurn := j\<rparr>) = (moveCore s)\<lparr>isPlayerTurn := j\<rparr>"
  "moveCore (s\<lparr>isPlayerTurnDeps := k\<rparr>) = (moveCore s)\<lparr>isPlayerTurnDeps := k\<rparr>"
  "moveCore (s\<lparr>calculatedLegalMoves := l\<rparr>) = (moveCore s)\<lparr>calculatedLegalMoves := l\<rparr>"
  "moveCore (s\<lparr>calculatedLegalMovesDeps := m\<rparr>) = (moveCore s)\<lparr>calculatedLegalMovesDeps := m\<rparr>"
  by (simp_all add: moveCore_def)

lemma handleDragStart_core:
  "moveCore (handleDragStart props rank file s) = handleDragStart props rank file (moveCore s)"
  by (simp add: handleDragStart_def Let_def moveCore_upd split: option.splits)

lemma handleDrop_core:
  "moveCore (handleDrop eng props rank file s) =
   moveCore (handleDrop eng props rank file (moveCore s))"
  by (simp add: handleDrop_def Let_def moveCore_upd moveSound_core split: option.splits prod.splits)

lemma handleContextMenu_core:
  "moveCore (handleContextMenu props rank file s) = moveCore s"
  by (simp add: handleContextMenu_def Let_def)

lemma submitKeyboardMove_core:
  "moveCore (submitKeyboardMove eng props s) = submitKeyboardMove eng props (moveCore s)"
  by (simp add: submitKeyboardMove_def parseKeyboardMove_def Let_def moveCore_upd split: option.splits prod.splits)

lemma withInputCall_core:
  "moveCore (s\<lparr>onKeyboardInputCalls := onKeyboardInputCalls s @ [keyboardInput s]\<rparr>) =
   (moveCore s)\<lparr>onKeyboardInputCalls := onKeyboardInputCalls (moveCore s) @ [keyboardInput (moveCore s)]\<rparr>"
  by (simp add: moveCore_def)

lemma typeMoveKey_core:
  "moveCore (typeMoveKey eng props key s) = typeMoveKey eng props key (moveCore s)"
proof -
  let ?s1 = "s\<lparr>keyboardInput := keyboardInput s @ toLowerCase key\<rparr>"
  let ?m1 = "(moveCore s)\<lparr>keyboardInput := keyboardInput (moveCore s) @ toLowerCase key\<rparr>"
  let ?s2 = "if length (keyboardInput ?s1) = 4 \<and> isUci (keyboardInput ?s1)
             then submitKeyboardMove eng props ?s1 else ?s1"
  let ?m2 = "if length (keyboardInput ?m1) = 4 \<and> isUci (keyboardInput ?m1)
             then submitKeyboardMove eng props ?m1 else ?m1"
  have 1: "moveCore ?s1 = ?m1"
    by (simp add: moveCore_def)
  have k: "keyboardInput ?m1 = keyboardInput ?s1"
    by (simp add: moveCore_def)
  have 2: "moveCore ?s2 = ?m2"
    unfolding k using 1 by (simp only: submitKeyboardMove_core if_distrib[of moveCore] cong: if_cong)
  have l: "typeMoveKey eng props key s =
             (if onKeyboardInput props
              then ?s2\<lparr>onKeyboardInputCalls := onKeyboardInputCalls ?s2 @ [keyboardInput ?s2]\<rparr>
              else ?s2)"
    unfolding typeMoveKey_def Let_def ..
  have r: "typeMoveKey eng props key (moveCore s) =
             (if onKeyboardInput props
              then ?m2\<lparr>onKeyboardInputCalls := onKeyboardInputCalls ?m2 @ [keyboardInput ?m2]\<rparr>
              else ?m2)"
    unfolding typeMoveKey_def Let_def ..
  show ?thesis
    unfolding l r using 2 withInputCall_core[of ?s2]
    by (simp only: if_distrib[of moveCore] cong: if_cong)
qed

lemma handleKeyDown_core:
  "moveCore (handleKeyDown eng props t key s) = handleKeyDown eng props t key (moveCore s)"
  unfolding handleKeyDown_def
  by (simp add: moveCore_upd submitKeyboardMove_core typeMoveKey_core)

lemma handleEscape_core:
  "moveCore (handleEscape props key s) = moveCore s"
  by (simp add: handleEscape_def Let_def)

lemma storeBoard_core:
  "moveCore (storeBoard parsed s) = storeBoard parsed (moveCore s)"
  by (simp add: storeBoard_def moveCore_def split: prod.splits)

lemma resetToStart_core:
  "moveCore (resetToStart eng s) = resetToStart eng (moveCore s)"
  by (simp add: resetToStart_def storeBoard_core moveCore_upd)

lemma fenEffect_core:
  "moveCore (fenEffect eng props s) = fenEffect eng props (moveCore s)"
  by (simp add: fenEffect_def Let_def storeBoard_core resetToStart_core moveCore_upd
           split: option.splits prod.splits)

lemma computes_core [simp]:
  "computeIsPlayerTurn eng props (moveCore s) = computeIsPlayerTurn eng props s"
  "computeLegalMoves eng props (moveCore s) = computeLegalMoves eng props s"
  by (simp_all add: computeIsPlayerTurn_def computeLegalMoves_def split: option.splits)

lemma refreshIsPlayerTurn_core:
  "moveCore (refreshIsPlayerTurn eng props s) = refreshIsPlayerTurn eng props (moveCore s)"
  by (simp add: refreshIsPlayerTurn_def moveCore_upd)

lemma refreshLegalMoves_core:
  "moveCore (refreshLegalMoves eng props s) = refreshLegalMoves eng props (moveCore s)"
  by (simp add: refreshLegalMoves_def Let_def moveCore_upd)

lemma refreshArrowValidMoves_core:
  "moveCore (refreshArrowValidMoves eng props s) = moveCore s"
  by (simp add: refreshArrowValidMoves_def Let_def)

lemma render_core:
  "moveCore (render eng props s) =
   refreshLegalMoves eng props (refreshIsPlayerTurn eng props (moveCore s))"
  by (simp add: render_def refreshArrowValidMoves_core refreshLegalMoves_core refreshIsPlayerTurn_core)

lemma handle_core:
  "moveCore (handle eng props ev s) = moveCore (handle eng props ev (moveCore s))"
proof (cases ev)
  case FenEffect
  then show ?thesis by (simp add: handle_def fenEffect_core)
next
  case (SquareClick r f)
  then show ?thesis using handleSquareClick_core[of eng props r f s] by (simp add: handle_def)
next
  case (TouchStart ig r f)
  then show ?thesis using handleTouchStart_core[of eng props ig r f s] by (simp add: handle_def)
next
  case (DragStart r f)
  then show ?thesis by (simp add: handle_def handleDragStart_core)
next
  case (DragOver r f)
  then show ?thesis by (simp add: handle_def handleDragOver_def)
next
  case DragLeave
  then show ?thesis by (simp add: handle_def)
next
  case (Drop r f)
  then show ?thesis using handleDrop_core[of eng props r f s] by (simp add: handle_def)
next
  case DragEnd
  then show ?thesis by (simp add: handle_def handleDragEnd_def moveCore_upd)
next
  case (ContextMenu r f)
  then show ?thesis by (simp add: handle_def handleContextMenu_core)
next
  case (KeyDown t key)
  then show ?thesis by (simp add: handle_def handleEscape_core handleKeyDown_core)
qed

lemma step_core:
  "moveCore (step eng props ev s) = moveCore (step eng props ev (moveCore s))"
proof -
  have "moveCore (step eng props ev x) =
          refreshLegalMoves eng props (refreshIsPlayerTurn eng props
            (moveCore (handle eng props ev
               (refreshLegalMoves eng props (refreshIsPlayerTurn eng props (moveCore x))))))" for x
  proof -
    have "moveCore (handle eng props ev (render eng props x)) =
            moveCore (handle eng props ev (moveCore (render eng props x)))"
      by (rule handle_core)
    then show ?thesis by (simp add: step_def render_core)
  qed
  from this[of s] this[of "moveCore s"] show ?thesis by simp
qed

lemma run_core:
  "moveCore (run eng evs s) = moveCore (run eng evs (moveCore s))"
proof (induction evs arbitrary: s)
  case Nil
  then show ?case by simp
next
  case (Cons pe evs)
  obtain props ev where pe: "pe = (props, ev)" by (cases pe)
  have "moveCore (run eng evs (step eng props ev s)) =
          moveCore (run eng evs (moveCore (step eng props ev s)))"
    by (rule Cons.IH)
  also have "\<dots> = moveCore (run eng evs (moveCore (step eng props ev (moveCore s))))"
    by (simp only: step_core[of eng props ev s])
  also have "\<dots> = moveCore (run eng evs (step eng props ev (moveCore s)))"
    by (rule Cons.IH[symmetric])
  finally show ?case by (simp add: pe)
qed

lemma fenEffect_premoves:
  "premoves (fenEffect eng props s) = premoves s"
  by (simp add: fenEffect_def resetToStart_def storeBoard_def Let_def split: option.splits prod.splits)

lemma fenEffect_onMoveCalls:
  "onMoveCalls (fenEffect eng props s) = onMoveCalls s"
  by (simp add: fenEffect_def resetToStart_def storeBoard_def Let_def split: option.splits prod.splits)

lemma render_premoves:
  "premoves (render eng props s) = premoves s"
  "onMoveCalls (render eng props s) = onMoveCalls s"
  by (simp_all add: render_def refreshArrowValidMoves_def refreshLegalMoves_def
        refreshIsPlayerTurn_def Let_def)

section \<open>Click to move\<close>

lemma clickToMove_blocked:
  assumes "selectedSquare props s = Some sel" "sel \<noteq> []"
    and "effectiveLegalMoves props s \<noteq> []"
    and "rankFileToSquare rank file \<notin> set (effectiveLegalMoves props s)"
  shows "onMoveCalls (clickToMove eng props rank file s) = onMoveCalls s"
  using assms by (simp add: clickToMove_def truthy_def Let_def)

lemma clickToMove_allowed:
  assumes "selectedSquare props s = Some sel" "sel \<noteq> []"
    and "sel \<noteq> rankFileToSquare rank file"
    and "effectiveLegalMoves props s = []"
  shows "onMoveCalls (clickToMove eng props rank file s) =
           onMoveCalls s @ [(sel, rankFileToSquare rank file, None)]"
  using assms by (simp add: clickToMove_def truthy_def Let_def)

lemma handleSquareClick_calls:
  "onMoveCalls (handleSquareClick eng props rank file s) = onMoveCalls s \<or>
   onMoveCalls (handleSquareClick eng props rank file s) =
     onMoveCalls (clickToMove eng props rank file s)"
  by (simp add: handleSquareClick_def Let_def split: option.splits)

lemma handleSquareClick_path:
  assumes "\<not> readOnly props" "onMove props" "isClickEnabled props"
    and "eraseArrowsOnClick props \<and> onArrowsChange props \<longrightarrow>
           find (\<lambda>arrow. startSquare arrow = rankFileToSquare rank file \<or>
                          endSquare arrow = rankFileToSquare rank file) (arrows props) = None"
  shows "handleSquareClick eng props rank file s = clickToMove eng props rank file s"
  using assms by (auto simp: handleSquareClick_def Let_def split: option.splits)

lemma selectedState_facts:
  "selectedSquare whitePlayerProps selectedState = Some ''e2''"
  "selectedSquare (whitePlayerProps\<lparr>legalMoves := [''e3'', ''e4'']\<rparr>) selectedState = Some ''e2''"
  "effectiveLegalMoves whitePlayerProps selectedState = []"
  "effectiveLegalMoves (whitePlayerProps\<lparr>legalMoves := [''e3'', ''e4'']\<rparr>) selectedState = [''e3'', ''e4'']"
  "rankFileToSquare 4 0 = ''a4''"
  "onMoveCalls selectedState = []"
  "readOnly whitePlayerProps = False" "onMove whitePlayerProps = True"
  "isClickEnabled whitePlayerProps = True" "eraseArrowsOnClick whitePlayerProps = False"
  by code_simp+

text \<open>
  Claim C6. A square is selected and the clicked square differs from it. When the
  effective legal-destination set is not empty and does not contain the clicked square,
  \<open>handleSquareClick\<close> makes no call of the move callback. When the set is empty and the
  click reaches the click-to-move path (the board is not read-only, a move callback is
  supplied, click input is enabled and the click does not erase an arrow), the callback
  is called once, with the selected square and the clicked square.
\<close>

theorem click_to_move_legal_gate:
  assumes "selectedSquare props s = Some sel" and "sel \<noteq> []"
    and "sel \<noteq> rankFileToSquare rank file"
  shows "(effectiveLegalMoves props s \<noteq> [] \<and>
          rankFileToSquare rank file \<notin> set (effectiveLegalMoves props s) \<longrightarrow>
            onMoveCalls (handleSquareClick eng props rank file s) = onMoveCalls s) \<and>
         (effectiveLegalMoves props s = [] \<and>
          \<not> readOnly props \<and> onMove props \<and> isClickEnabled props \<and>
          (eraseArrowsOnClick props \<and> onArrowsChange props \<longrightarrow>
             find (\<lambda>arrow. startSquare arrow = rankFileToSquare rank file \<or>
                            endSquare arrow = rankFileToSquare rank file) (arrows props) = None) \<longrightarrow>
            onMoveCalls (handleSquareClick eng props rank file s) =
              onMoveCalls s @ [(sel, rankFileToSquare rank file, None)])"
proof (intro conjI impI)
  assume a: "effectiveLegalMoves props s \<noteq> [] \<and>
             rankFileToSquare rank file \<notin> set (effectiveLegalMoves props s)"
  then have "onMoveCalls (clickToMove eng props rank file s) = onMoveCalls s"
    using clickToMove_blocked[OF assms(1,2)] by simp
  then show "onMoveCalls (handleSquareClick eng props rank file s) = onMoveCalls s"
    using handleSquareClick_calls[of eng props rank "file" s] by auto
next
  assume a: "effectiveLegalMoves props s = [] \<and>
          \<not> readOnly props \<and> onMove props \<and> isClickEnabled props \<and>
          (eraseArrowsOnClick props \<and> onArrowsChange props \<longrightarrow>
             find (\<lambda>arrow. startSquare arrow = rankFileToSquare rank file \<or>
                            endSquare arrow = rankFileToSquare rank file) (arrows props) = None)"
  then have "handleSquareClick eng props rank file s = clickToMove eng props rank file s"
    using handleSquareClick_path[of props rank "file" eng s] by blast
  then show "onMoveCalls (handleSquareClick eng props rank file s) =
              onMoveCalls s @ [(sel, rankFileToSquare rank file, None)]"
    using clickToMove_allowed[OF assms] a by simp
qed

theorem click_to_move_legal_gate_witness:
  "onMoveCalls (handleSquareClick readerEngine (whitePlayerProps\<lparr>legalMoves := [''e3'', ''e4'']\<rparr>)
                  4 0 selectedState) = [] \<and>
   onMoveCalls (handleSquareClick readerEngine whitePlayerProps 4 0 selectedState) =
     [(''e2'', ''a4'', None)]"
  using click_to_move_legal_gate[of "whitePlayerProps\<lparr>legalMoves := [''e3'', ''e4'']\<rparr>"
          selectedState "''e2''" 4 0 readerEngine]
        click_to_move_legal_gate[of whitePlayerProps selectedState "''e2''" 4 0 readerEngine]
  by (simp add: selectedState_facts)

section \<open>Drag and drop\<close>

text \<open>
  \<open>handleDrop\<close> reads the memo cell \<open>isPlayerTurn\<close>. The cell is filled by the first
  render and recomputed when \<open>currentPlayerColor\<close> changes; loading a new position into
  the \<open>chess\<close> object does not recompute it. With Black as the player, the component
  mounted on the starting position and the FEN after 1. e4 arriving, the cell still says
  that it is not the player's turn, while the engine says that Black is to move.
\<close>

lemma isPlayerTurn_not_recomputed:
  "isPlayerTurn (step readerEngine (blackPlayerProps\<lparr>fen := Some FEN_AFTER_E4\<rparr>) FenEffect
                   (mounted blackPlayerProps)) = False \<and>
   computeIsPlayerTurn readerEngine (blackPlayerProps\<lparr>fen := Some FEN_AFTER_E4\<rparr>)
     (step readerEngine (blackPlayerProps\<lparr>fen := Some FEN_AFTER_E4\<rparr>) FenEffect
        (mounted blackPlayerProps)) = True"
  by code_simp

lemma draggingState_facts:
  "draggedPiece draggingState = Some (''e2'', \<lparr>ptype = Pawn, color = White\<rparr>)"
  "chessMoves readerEngine (chess draggingState) ''e2'' = Some []"
  "rankFileToSquare 3 4 = ''e5''"
  "onMove whitePlayerProps = True" "enablePremove whitePlayerProps = True"
  "onPromotionSelect whitePlayerProps = False"
  "isPlayerTurn draggingState = True"
  "onMoveCalls draggingState = []"
  "isPromotionMove (chessGet readerEngine (chess draggingState) ''e2'') ''e5'' = False"
  by code_simp+

text \<open>
  The branches of \<open>handleDrop\<close> in terms of the cell. A piece is being dragged, the
  engine has answered with the legal moves from its square, the drop square is not the
  target of any of them, a move callback is supplied and the promotion dialog is not
  opened. With premoves enabled and the cell \<open>isPlayerTurn\<close> true, the handler calls the
  move callback with the dragged square and the drop square (and a queen as promotion
  piece for a pawn that reaches the last rank). With premoves disabled the drop is
  blocked: no callback and no premove.
\<close>

lemma handleDrop_by_memo:
  assumes "draggedPiece s = Some (src, pc)"
    and "chessMoves eng (chess s) src = Some ms"
    and "rankFileToSquare rank file \<notin> moveTo ` set ms"
    and "onMove props"
    and "\<not> (isPromotionMove (chessGet eng (chess s) src) (rankFileToSquare rank file) \<and>
            onPromotionSelect props)"
  shows "(enablePremove props \<and> isPlayerTurn s \<longrightarrow>
            onMoveCalls (handleDrop eng props rank file s) =
              onMoveCalls s @
                [(src, rankFileToSquare rank file,
                  if isPromotionMove (chessGet eng (chess s) src) (rankFileToSquare rank file)
                  then Some Queen else None)]) \<and>
         (\<not> enablePremove props \<longrightarrow>
            onMoveCalls (handleDrop eng props rank file s) = onMoveCalls s \<and>
            premoves (handleDrop eng props rank file s) = premoves s)"
proof -
  have invalid: "\<not> (\<exists>m \<in> set ms. moveTo m = rankFileToSquare rank file)"
    using assms(3) by (metis imageI)
  show ?thesis
    using assms(1,2,4,5) invalid
    by (auto simp: handleDrop_def Let_def)
qed

lemma handleDrop_by_memo_example:
  "onMoveCalls (handleDrop readerEngine whitePlayerProps 3 4 draggingState) = [(''e2'', ''e5'', None)]"
  using handleDrop_by_memo[of draggingState "''e2''" "\<lparr>ptype = Pawn, color = White\<rparr>"
          readerEngine "[]" 3 4 whitePlayerProps]
  by (simp add: draggingState_facts)

text \<open>
  Claim C10 says that, with premoves enabled and the configured player to move, a piece
  dropped on a square that is not a legal destination still reaches the move callback
  (a callback being supplied and no promotion dialog opened). Black is the player, the
  FEN after 1. e4 has arrived and the engine says that Black is to move; Black drags the
  pawn from e7 and drops it on e3, which is no legal destination. The cell
  \<open>isPlayerTurn\<close> still holds the value computed for the starting position, so
  \<open>handleDrop\<close> takes the premove branch: the drop is queued and the move callback is
  not called.
\<close>

theorem drop_on_players_turn_queued:
  "currentPlayerColor blackToMoveProps = Some Black \<and>
   enablePremove blackToMoveProps = True \<and> onMove blackToMoveProps = True \<and>
   onPromotionSelect blackToMoveProps = False \<and>
   chessTurn readerEngine (chess blackDraggingState) = EngineB \<and>
   computeIsPlayerTurn readerEngine blackToMoveProps blackDraggingState = True \<and>
   draggedPiece blackDraggingState = Some (''e7'', \<lparr>ptype = Pawn, color = Black\<rparr>) \<and>
   chessMoves readerEngine (chess blackDraggingState) ''e7'' = Some [] \<and>
   rankFileToSquare 5 4 = ''e3'' \<and>
   isPlayerTurn blackDraggingState = False \<and>
   onMoveCalls blackDraggingState = [] \<and>
   premoves blackDraggingState = [] \<and>
   onMoveCalls (handleDrop readerEngine blackToMoveProps 5 4 blackDraggingState) = [] \<and>
   premoves (handleDrop readerEngine blackToMoveProps 5 4 blackDraggingState) = [(''e7'', ''e3'')]"
  by code_simp

section \<open>The premove queue\<close>

lemma queuedState_facts:
  "premoves queuedState = [(''e7'', ''e5'')]"
  "onMoveCalls queuedState = []"
  "enablePremove blackPlayerProps = True"
  "chessTurn readerEngine (chess queuedState) = EngineW"
  "chessTurn readerEngine
     (chess (step readerEngine (blackPlayerProps\<lparr>fen := Some FEN_AFTER_E4\<rparr>) FenEffect queuedState)) = EngineB"
  by code_simp+

text \<open>
  Claim C3 says that the next turn change discards the premove queue. The effect that
  runs on a new FEN never writes the queue: Black, with premoves enabled, has queued
  e7-e5 while White is to move; the FEN after 1. e4 arrives, Black is to move, and the
  queue still holds the premove.
\<close>

theorem premoves_not_discarded:
  "enablePremove blackPlayerProps \<and>
   premoves queuedState = [(''e7'', ''e5'')] \<and>
   chessTurn readerEngine (chess queuedState) = EngineW \<and>
   chessTurn readerEngine
     (chess (step readerEngine (blackPlayerProps\<lparr>fen := Some FEN_AFTER_E4\<rparr>) FenEffect queuedState)) = EngineB \<and>
   premoves (step readerEngine (blackPlayerProps\<lparr>fen := Some FEN_AFTER_E4\<rparr>) FenEffect queuedState) \<noteq> []"
  by code_simp

text \<open>
  Claim C3 as amended. The arrival of a new FEN, a turn change included, leaves the
  premove queue as it is and calls no move callback; and the calls of the move callback
  made by any one sequence of properties and events are the same whatever the queue
  holds: no queued premove is ever forwarded to the host.
\<close>

theorem premoves_survive_fen_change:
  "premoves (step eng props FenEffect s) = premoves s \<and>
   onMoveCalls (step eng props FenEffect s) = onMoveCalls s \<and>
   onMoveCalls (run eng evs (s\<lparr>premoves := q\<rparr>)) = onMoveCalls (run eng evs s)"
proof -
  have a: "premoves (step eng props FenEffect s) = premoves s"
    by (simp add: step_def handle_def render_premoves fenEffect_premoves)
  have b: "onMoveCalls (step eng props FenEffect s) = onMoveCalls s"
    by (simp add: step_def handle_def render_premoves fenEffect_onMoveCalls)
  have "moveCore (run eng evs (s\<lparr>premoves := q\<rparr>)) = moveCore (run eng evs (moveCore (s\<lparr>premoves := q\<rparr>)))"
    by (rule run_core)
  also have "\<dots> = moveCore (run eng evs (moveCore s))" by simp
  also have "\<dots> = moveCore (run eng evs s)" by (rule run_core[symmetric])
  finally have "onMoveCalls (moveCore (run eng evs (s\<lparr>premoves := q\<rparr>))) =
                onMoveCalls (moveCore (run eng evs s))" by simp
  then have c: "onMoveCalls (run eng evs (s\<lparr>premoves := q\<rparr>)) = onMoveCalls (run eng evs s)"
    by simp
  from a b c show ?thesis by simp
qed

theorem premoves_survive_fen_change_witness:
  "premoves (step readerEngine (blackPlayerProps\<lparr>fen := Some FEN_AFTER_E4\<rparr>) FenEffect queuedState) =
     [(''e7'', ''e5'')] \<and>
   onMoveCalls (step readerEngine (blackPlayerProps\<lparr>fen := Some FEN_AFTER_E4\<rparr>) FenEffect queuedState) = []"
  using premoves_survive_fen_change[of readerEngine "blackPlayerProps\<lparr>fen := Some FEN_AFTER_E4\<rparr>"
          queuedState "[]" "[]"]
  by (simp add: queuedState_facts)

section \<open>An invalid FEN\<close>

text \<open>
  When the \<open>fen\<close> property changes to a string the engine rejects, the effect catches
  the exception of \<open>chess.load\<close>, resets the engine and shows the standard starting
  position. The first render has no such guard: the constructor's exception ends it.
\<close>

lemma mount_throws:
  "chessLoad eng f = None \<Longrightarrow> mount eng (props\<lparr>fen := Some f\<rparr>) = Inl InvalidFen"
  by (simp add: mount_def)

lemma fenEffect_recovers:
  assumes "fen props = Some f" "f \<noteq> []" "chessLoad eng f = None"
  shows "chess (fenEffect eng props s) = chessReset eng \<and>
         boardState (fenEffect eng props s) = fst (parseFen eng (chessFen eng (chessReset eng)))"
  using assms
  by (simp add: fenEffect_def truthy_def resetToStart_def storeBoard_def Let_def split: prod.splits)

lemma fenEffect_recovers_example:
  "boardState (step readerEngine (whitePlayerProps\<lparr>fen := Some ''invalid''\<rparr>) FenEffect
                 (mounted (whitePlayerProps\<lparr>fen := Some FEN_AFTER_E4\<rparr>))) =
     boardOf DEFAULT_POSITION"
  by code_simp

text \<open>
  Claim C8 says that an invalid FEN is recovered from locally and never reaches the host
  as an exception. Mounted with the FEN \<open>invalid\<close>, the component does not get as far
  as its effect: the first render throws.
\<close>

theorem mount_invalid_fen:
  "readFEN ''invalid'' = None \<and>
   mount readerEngine (defaultProps\<lparr>fen := Some ''invalid''\<rparr>) = Inl InvalidFen"
  by code_simp

end
